theory Spec2Isabelle
  imports Complex_Main
begin

section \<open>The endless-runner engine of the Game component\<close>

text \<open>
  The development embeds the game engine of the \<^verbatim>\<open>Game\<close> component: the helpers
  \<^verbatim>\<open>getCactusSize\<close>, \<^verbatim>\<open>genBuildings\<close>, \<^verbatim>\<open>genStars\<close> and the closures
  \<^verbatim>\<open>resize\<close>, \<^verbatim>\<open>makeState\<close>, \<^verbatim>\<open>doAction\<close> and \<^verbatim>\<open>loop\<close>.

  The sources hold three revisions of the component. The first reads the module constants
  \<^verbatim>\<open>GRAVITY\<close>, \<^verbatim>\<open>JUMP_FORCE\<close>, \<^verbatim>\<open>INIT_SPEED\<close>, \<^verbatim>\<open>MAX_SPEED\<close>,
  \<^verbatim>\<open>SPEED_RATE\<close>, \<^verbatim>\<open>MIN_GAP_PX\<close> and \<^verbatim>\<open>MAX_GAP_PX\<close>. The second reads the same
  seven numbers from \<^verbatim>\<open>physicsRef.current\<close>, which the settings panel rewrites, and
  draws other obstacle bitmaps; its engine is otherwise the same text. Every closure below
  takes that record as its first argument, and the first revision is the instance
  \<open>PHYSICS_DEFAULTS\<close>. The obstacle table is the one of the first revision; no property
  below depends on its entries. The third revision moves the floor of the character down
  by \<^verbatim>\<open>CHAR_FOOT_OFF\<close>; it is not the one embedded here.

  Conventions of the embedding.
  \<^item> JavaScript numbers are exact reals; rounding, overflow and the sign of zero are not
    modelled. The three places that can hold a value that is not a finite number
    (\<^verbatim>\<open>frameTick\<close> and \<^verbatim>\<open>nextGap\<close>, which receive quotients, and
    \<^verbatim>\<open>hiScore\<close>, which receives \<^verbatim>\<open>parseInt\<close>) have the type \<open>'a jsval\<close>.
  \<^item> \<^verbatim>\<open>Math.random()\<close> is a stream \<open>src\<close> together with the number of draws made so
    far; the \<open>k\<close>-th draw is the fractional part of \<open>src k\<close>, so that it lies in
    \<open>[0, 1)\<close> for every stream.
  \<^item> Mutation in place is explicit state passing. Canvas drawing, the two HUD text nodes
    and the \<^verbatim>\<open>setPhase\<close> mirror of the phase are outputs only and are not modelled;
    \<^verbatim>\<open>requestAnimationFrame\<close> is the caller of \<open>loop\<close>. Storage access is assumed
    not to throw.
\<close>

subsection \<open>Numbers that may fail to be finite\<close>

datatype 'a jsval = NaN | NegInf | Num 'a | PosInf

type_synonym jsnum = "real jsval"

text \<open>The arithmetic of IEEE special values, on exact finite parts.\<close>

definition div_fin :: "real \<Rightarrow> real \<Rightarrow> jsnum" where
  "div_fin a b =
     (if b \<noteq> 0 then Num (a / b)
      else if 0 < a then PosInf
      else if a < 0 then NegInf
      else NaN)"

fun js_div :: "jsnum \<Rightarrow> jsnum \<Rightarrow> jsnum" where
  "js_div NaN _ = NaN"
| "js_div _ NaN = NaN"
| "js_div (Num a) (Num b) = div_fin a b"
| "js_div (Num a) PosInf = Num 0"
| "js_div (Num a) NegInf = Num 0"
| "js_div PosInf (Num b) = (if 0 \<le> b then PosInf else NegInf)"
| "js_div NegInf (Num b) = (if 0 \<le> b then NegInf else PosInf)"
| "js_div PosInf PosInf = NaN"
| "js_div PosInf NegInf = NaN"
| "js_div NegInf PosInf = NaN"
| "js_div NegInf NegInf = NaN"

definition mul_inf :: "real \<Rightarrow> jsnum" where
  "mul_inf a = (if 0 < a then PosInf else if a < 0 then NegInf else NaN)"

fun js_neg :: "jsnum \<Rightarrow> jsnum" where
  "js_neg NaN = NaN"
| "js_neg NegInf = PosInf"
| "js_neg (Num a) = Num (- a)"
| "js_neg PosInf = NegInf"

fun js_mul :: "jsnum \<Rightarrow> jsnum \<Rightarrow> jsnum" where
  "js_mul NaN _ = NaN"
| "js_mul _ NaN = NaN"
| "js_mul (Num a) (Num b) = Num (a * b)"
| "js_mul (Num a) PosInf = mul_inf a"
| "js_mul (Num a) NegInf = js_neg (mul_inf a)"
| "js_mul PosInf (Num b) = mul_inf b"
| "js_mul NegInf (Num b) = js_neg (mul_inf b)"
| "js_mul PosInf PosInf = PosInf"
| "js_mul PosInf NegInf = NegInf"
| "js_mul NegInf PosInf = NegInf"
| "js_mul NegInf NegInf = PosInf"

fun js_add :: "jsnum \<Rightarrow> jsnum \<Rightarrow> jsnum" where
  "js_add NaN _ = NaN"
| "js_add _ NaN = NaN"
| "js_add (Num a) (Num b) = Num (a + b)"
| "js_add (Num a) PosInf = PosInf"
| "js_add (Num a) NegInf = NegInf"
| "js_add PosInf (Num b) = PosInf"
| "js_add NegInf (Num b) = NegInf"
| "js_add PosInf PosInf = PosInf"
| "js_add PosInf NegInf = NaN"
| "js_add NegInf PosInf = NaN"
| "js_add NegInf NegInf = NegInf"

definition js_sub :: "jsnum \<Rightarrow> jsnum \<Rightarrow> jsnum" where
  "js_sub a b = js_add a (js_neg b)"

text \<open>The comparison \<^verbatim>\<open><\<close>; every comparison with \<^verbatim>\<open>NaN\<close> is false.\<close>

fun js_lt :: "('a::linorder) jsval \<Rightarrow> 'a jsval \<Rightarrow> bool" where
  "js_lt NaN _ = False"
| "js_lt _ NaN = False"
| "js_lt (Num a) (Num b) = (a < b)"
| "js_lt (Num a) PosInf = True"
| "js_lt (Num a) NegInf = False"
| "js_lt NegInf (Num b) = True"
| "js_lt NegInf PosInf = True"
| "js_lt NegInf NegInf = False"
| "js_lt PosInf _ = False"

text \<open>The comparison \<^verbatim>\<open><=\<close>.\<close>

fun js_le :: "('a::linorder) jsval \<Rightarrow> 'a jsval \<Rightarrow> bool" where
  "js_le NaN _ = False"
| "js_le _ NaN = False"
| "js_le (Num a) (Num b) = (a \<le> b)"
| "js_le (Num a) PosInf = True"
| "js_le (Num a) NegInf = False"
| "js_le NegInf _ = True"
| "js_le PosInf PosInf = True"
| "js_le PosInf _ = False"

text \<open>\<^verbatim>\<open>Math.min\<close> and \<^verbatim>\<open>Math.max\<close> of two arguments: \<^verbatim>\<open>NaN\<close> if either is.\<close>

fun Math_min :: "('a::linorder) jsval \<Rightarrow> 'a jsval \<Rightarrow> 'a jsval" where
  "Math_min NaN _ = NaN"
| "Math_min _ NaN = NaN"
| "Math_min a b = (if js_lt b a then b else a)"

fun Math_max :: "('a::linorder) jsval \<Rightarrow> 'a jsval \<Rightarrow> 'a jsval" where
  "Math_max NaN _ = NaN"
| "Math_max _ NaN = NaN"
| "Math_max a b = (if js_lt a b then b else a)"

subsection \<open>The random source\<close>

text \<open>
  \<^verbatim>\<open>Math.random()\<close>: the \<open>k\<close>-th draw of the process. Taking the fractional part
  puts every draw in \<open>[0, 1)\<close>, whatever the stream.
\<close>

definition Math_random :: "(nat \<Rightarrow> real) \<Rightarrow> nat \<Rightarrow> real" where
  "Math_random src k = frac (src k)"

subsection \<open>Module constants\<close>

definition FRAME_W :: real where "FRAME_W = 226"
definition FRAME_H :: real where "FRAME_H = 261"
definition RUN_FRAMES :: "nat list" where "RUN_FRAMES = [0, 1, 2, 3, 4, 5]"
definition JUMP_FRAME :: nat where "JUMP_FRAME = 9"
definition DEAD_FRAME :: nat where "DEAD_FRAME = 11"

definition CHAR_H :: real where "CHAR_H = 96"

text \<open>\<^verbatim>\<open>Math.round(v)\<close> is \<open>\<lfloor>v + 1/2\<rfloor>\<close>.\<close>

definition Math_round :: "real \<Rightarrow> int" where
  "Math_round v = \<lfloor>v + 1 / 2\<rfloor>"

definition CHAR_W :: real where
  "CHAR_W = of_int (Math_round (CHAR_H * FRAME_W / FRAME_H))"

definition GRAVITY :: real where "GRAVITY = 62 / 100"
definition JUMP_FORCE :: real where "JUMP_FORCE = - 15"
definition INIT_SPEED :: real where "INIT_SPEED = 5"
definition MAX_SPEED :: real where "MAX_SPEED = 22"
definition SCORE_RATE :: real where "SCORE_RATE = 9 / 1000"
definition SPEED_RATE :: real where "SPEED_RATE = 14 / 1000"
definition MIN_GAP_PX :: real where "MIN_GAP_PX = 420"
definition MAX_GAP_PX :: real where "MAX_GAP_PX = 950"
definition ANIM_FPS :: real where "ANIM_FPS = 10"
definition GROUND_RATIO :: real where "GROUND_RATIO = 76 / 100"

text \<open>
  The tunable parameters, \<^verbatim>\<open>physicsRef.current\<close>, and their defaults
  \<^verbatim>\<open>PHYSICS_DEFAULTS\<close>, which are the module constants.
\<close>

record physics =
  gravity :: real
  jumpForce :: real
  initSpeed :: real
  maxSpeed :: real
  speedRate :: real
  minGap :: real
  maxGap :: real

definition PHYSICS_DEFAULTS :: physics where
  "PHYSICS_DEFAULTS =
     \<lparr> gravity = GRAVITY, jumpForce = JUMP_FORCE, initSpeed = INIT_SPEED,
       maxSpeed = MAX_SPEED, speedRate = SPEED_RATE,
       minGap = MIN_GAP_PX, maxGap = MAX_GAP_PX \<rparr>"

subsection \<open>Obstacle bitmaps\<close>

record cactus_def =
  scale :: nat
  rows :: "nat list list"

definition CACTUS_DEFS :: "cactus_def list" where
  "CACTUS_DEFS =
   [ \<lparr> scale = 7, rows =
       [ [0,0,1,1,0,0,0],
         [0,0,1,1,0,0,0],
         [0,1,1,1,0,0,0],
         [1,1,1,1,1,1,0],
         [1,1,1,1,0,0,0],
         [0,0,1,1,0,0,0],
         [0,0,1,1,0,0,0],
         [0,0,1,1,0,0,0],
         [0,0,1,1,0,0,0],
         [0,0,1,1,0,0,0],
         [0,0,1,1,0,0,0] ] \<rparr>,
     \<lparr> scale = 7, rows =
       [ [0,0,1,1,0,0,0],
         [0,0,1,1,0,0,0],
         [0,0,1,1,0,0,0],
         [0,1,1,1,0,0,0],
         [1,1,1,1,1,1,0],
         [0,0,1,1,0,0,0],
         [0,0,1,1,1,1,0],
         [0,0,1,1,1,1,0],
         [0,0,1,1,0,0,0],
         [0,0,1,1,0,0,0],
         [0,0,1,1,0,0,0],
         [0,0,1,1,0,0,0] ] \<rparr>,
     \<lparr> scale = 7, rows =
       [ [0,1,1,0,0,1,1,0],
         [0,1,1,0,0,1,1,0],
         [1,1,1,1,1,1,1,0],
         [1,1,1,1,0,1,1,0],
         [0,1,1,0,0,1,1,0],
         [0,1,1,0,0,1,1,0],
         [0,1,1,0,0,1,1,0],
         [0,1,1,0,0,1,1,0],
         [0,1,1,0,0,1,1,0] ] \<rparr> ]"

text \<open>
  \<^verbatim>\<open>getCactusSize(type)\<close>. The only caller passes
  \<^verbatim>\<open>Math.floor(Math.random() * CACTUS_DEFS.length)\<close>, an index of the table.
\<close>

definition getCactusSize :: "nat \<Rightarrow> real \<times> real" where
  "getCactusSize type =
     (let d = CACTUS_DEFS ! type
      in (real (length (rows d ! 0) * scale d), real (length (rows d) * scale d)))"

subsection \<open>Built-ins used on the stored high score\<close>

text \<open>
  \<^verbatim>\<open>parseInt(s, 10)\<close> as the language defines it: leading white space is skipped, one
  sign is read, and the longest prefix of decimal digits is the value; with no digit the
  result is \<^verbatim>\<open>NaN\<close>.
\<close>

definition isWhiteSpace :: "char \<Rightarrow> bool" where
  "isWhiteSpace c = ((of_char c :: nat) \<in> {9, 10, 11, 12, 13, 32})"

definition isDigit :: "char \<Rightarrow> bool" where
  "isDigit c = (48 \<le> (of_char c :: nat) \<and> (of_char c :: nat) \<le> 57)"

definition digitValue :: "char \<Rightarrow> int" where
  "digitValue c = int (of_char c) - 48"

definition parseInt :: "string \<Rightarrow> int jsval" where
  "parseInt s =
     (let s1 = dropWhile isWhiteSpace s;
          sign = (if s1 \<noteq> [] \<and> hd s1 = CHR ''-'' then - 1 else 1);
          s2 = (if s1 \<noteq> [] \<and> (hd s1 = CHR ''+'' \<or> hd s1 = CHR ''-'') then tl s1 else s1);
          z = takeWhile isDigit s2
      in if z = [] then NaN
         else Num (sign * foldl (\<lambda>a c. 10 * a + digitValue c) 0 z))"

text \<open>\<^verbatim>\<open>String(v)\<close>, the text that \<^verbatim>\<open>localStorage.setItem\<close> stores for a number.\<close>

fun decimal :: "nat \<Rightarrow> string" where
  "decimal n =
     (if n < 10 then [''0123456789'' ! n]
      else decimal (n div 10) @ [''0123456789'' ! (n mod 10)])"

declare decimal.simps [simp del]

fun String :: "int jsval \<Rightarrow> string" where
  "String NaN = ''NaN''"
| "String PosInf = ''Infinity''"
| "String NegInf = ''-Infinity''"
| "String (Num n) = (if n < 0 then CHR ''-'' # decimal (nat (- n)) else decimal (nat n))"

text \<open>
  The remainder \<^verbatim>\<open>a % b\<close> of finite numbers, \<open>b\<close> not zero: the quotient is
  truncated towards zero.
\<close>

definition js_rem :: "real \<Rightarrow> real \<Rightarrow> real" where
  "js_rem a b =
     (let q = a / b
      in a - b * of_int (if 0 \<le> q then \<lfloor>q\<rfloor> else \<lceil>q\<rceil>))"

subsection \<open>Scenery\<close>

record star =
  star_x :: real
  star_y :: real
  star_r :: real
  star_a :: real
  star_tw :: real
  star_tp :: real

text \<open>
  \<^verbatim>\<open>genStars(w, groundY)\<close>: \<^verbatim>\<open>Array.from({ length: 180 }, f)\<close> calls \<open>f\<close> for the
  indices 0 to 179 in order, and \<open>f\<close> draws six numbers, in the order of the fields.
  The second component is the number of draws made afterwards.
\<close>

definition genStars :: "(nat \<Rightarrow> real) \<Rightarrow> nat \<Rightarrow> real \<Rightarrow> real \<Rightarrow> star list \<times> nat" where
  "genStars src k w groundY =
     (map (\<lambda>i.
        \<lparr> star_x = Math_random src (k + 6 * i) * w,
          star_y = Math_random src (k + 6 * i + 1) * groundY * (88 / 100),
          star_r = (if Math_random src (k + 6 * i + 2) < 2 / 10 then 14 / 10 else 8 / 10),
          star_a = 45 / 100 + Math_random src (k + 6 * i + 3) * (55 / 100),
          star_tw = 25 / 100 + Math_random src (k + 6 * i + 4) * (11 / 10),
          star_tp = Math_random src (k + 6 * i + 5) * pi * 2 \<rparr>) [0..<180],
      k + 6 * 180)"

record window =
  win_f :: nat
  win_c :: nat
  lit :: bool

record building =
  b_x :: int
  bw :: int
  bh :: int
  floors :: int
  cols :: int
  floorH :: int
  colW :: int
  windows :: "window list"

record layer =
  buildings :: "building list"
  totalW :: int

text \<open>
  The two inner loops of \<^verbatim>\<open>genBuildings\<close>, over the cells \<open>(f, c)\<close> floor by floor:
  one draw decides whether the cell has a window, a second one, made only then, whether
  it is lit.
\<close>

fun genWindows :: "(nat \<Rightarrow> real) \<Rightarrow> (nat \<times> nat) list \<Rightarrow> nat \<Rightarrow> window list \<times> nat" where
  "genWindows src [] k = ([], k)"
| "genWindows src ((f, c) # cells) k =
     (if Math_random src k > 3 / 10
      then (let wn = \<lparr> win_f = f, win_c = c, lit = (Math_random src (k + 1) > 25 / 100) \<rparr>;
                (ws, k') = genWindows src cells (k + 2)
            in (wn # ws, k'))
      else genWindows src cells (k + 1))"

text \<open>
  The outer loop of \<^verbatim>\<open>genBuildings\<close>, by recursion on the number of buildings still
  to lay out; \<open>x\<close> is the running left edge.
\<close>

fun layBuildings ::
  "(nat \<Rightarrow> real) \<Rightarrow> nat \<Rightarrow> int \<Rightarrow> int \<Rightarrow> int \<Rightarrow> int \<Rightarrow> int \<Rightarrow> nat \<Rightarrow> building list \<times> int \<times> nat"
where
  "layBuildings src 0 minW maxW minH maxH x k = ([], x, k)"
| "layBuildings src (Suc n) minW maxW minH maxH x k =
     (let bw' = minW + \<lfloor>Math_random src k * of_int (maxW - minW + 1)\<rfloor>;
          bh' = minH + \<lfloor>Math_random src (k + 1) * of_int (maxH - minH + 1)\<rfloor>;
          floorH' = 14;
          colW' = 12;
          floors' = \<lfloor>real_of_int bh' / real_of_int floorH'\<rfloor>;
          cols' = \<lfloor>real_of_int bw' / real_of_int colW'\<rfloor>;
          (ws, k1) = genWindows src (List.product [0..<nat floors'] [0..<nat cols']) (k + 2);
          b = \<lparr> b_x = x, bw = bw', bh = bh', floors = floors', cols = cols',
                floorH = floorH', colW = colW', windows = ws \<rparr>;
          x' = x + (bw' + 3 + \<lfloor>Math_random src k1 * 10\<rfloor>);
          (bs, xe, ke) = layBuildings src n minW maxW minH maxH x' (k1 + 1)
      in (b # bs, xe, ke))"

definition genBuildings ::
  "(nat \<Rightarrow> real) \<Rightarrow> nat \<Rightarrow> nat \<Rightarrow> int \<Rightarrow> int \<Rightarrow> int \<Rightarrow> int \<Rightarrow> layer \<times> nat"
where
  "genBuildings src k count minW maxW minH maxH =
     (let (bs, xe, ke) = layBuildings src count minW maxW minH maxH 0 k
      in (\<lparr> buildings = bs, totalW = xe \<rparr>, ke))"

subsection \<open>The game state\<close>

datatype phase_t = Intro | Playing | GameOver

record character =
  ch_x :: real
  ch_y :: real
  vy :: real
  grounded :: bool
  frame :: nat
  frameTick :: jsnum
  bounce :: real

record obstacle =
  o_x :: real
  o_type :: nat
  o_w :: real
  o_h :: real

record game =
  g_w :: nat
  g_h :: nat
  gndY :: int
  phase :: phase_t
  score :: real
  hiScore :: "int jsval"
  speed :: real
  g_t :: real
  ch :: character
  obs :: "obstacle list"
  nextGap :: jsnum
  gndOff :: real
  farOff :: real
  nearOff :: real
  stars :: "star list"
  far :: layer
  near :: layer
  lastDisplayScore :: int

text \<open>
  What the closures share besides the game state: the canvas size, the persistent store,
  the reference \<^verbatim>\<open>gRef.current\<close> (\<^verbatim>\<open>null\<close> until the first \<^verbatim>\<open>makeState\<close>), the
  time stamp \<^verbatim>\<open>lastTs\<close> of the previous frame, and the number of random draws made.
\<close>

record world =
  canvas_width :: nat
  canvas_height :: nat
  localStorage :: "string \<rightharpoonup> string"
  gRef :: "game option"
  lastTs :: real
  draws :: nat

subsection \<open>\<^verbatim>\<open>makeState\<close> and \<^verbatim>\<open>resize\<close>\<close>

text \<open>\<^verbatim>\<open>localStorage.getItem('da_hi') || '0'\<close>: \<^verbatim>\<open>null\<close> and the empty string are falsy.\<close>

definition storedHi :: "(string \<rightharpoonup> string) \<Rightarrow> string" where
  "storedHi st =
     (case st ''da_hi'' of
        None \<Rightarrow> ''0''
      | Some v \<Rightarrow> if v = [] then ''0'' else v)"

definition makeState :: "physics \<Rightarrow> (nat \<Rightarrow> real) \<Rightarrow> world \<Rightarrow> game \<times> nat" where
  "makeState p src wd =
     (let w = canvas_width wd;
          h = canvas_height wd;
          gndY' = \<lfloor>real h * GROUND_RATIO\<rfloor>;
          (stars', k1) = genStars src (draws wd) (real w) (real_of_int gndY');
          (far', k2) = genBuildings src k1 50 30 65 45 120;
          (near', k3) = genBuildings src k2 35 55 110 80 210
      in (\<lparr> g_w = w, g_h = h, gndY = gndY',
            phase = Intro,
            score = 0,
            hiScore = parseInt (storedHi (localStorage wd)),
            speed = initSpeed p,
            g_t = 0,
            ch = \<lparr> ch_x = 110, ch_y = real_of_int gndY' - CHAR_H, vy = 0, grounded = True,
                   frame = 0, frameTick = Num 0, bounce = 0 \<rparr>,
            obs = [],
            nextGap = Num 1400,
            gndOff = 0, farOff = 0, nearOff = 0,
            stars = stars', far = far', near = near',
            lastDisplayScore = - 1 \<rparr>, k3))"

text \<open>
  \<^verbatim>\<open>resize\<close>, with the window's \<^verbatim>\<open>innerWidth\<close> and \<^verbatim>\<open>innerHeight\<close> as arguments.
\<close>

definition resize :: "(nat \<Rightarrow> real) \<Rightarrow> nat \<Rightarrow> nat \<Rightarrow> world \<Rightarrow> world" where
  "resize src innerWidth innerHeight wd =
     (let wd1 = wd\<lparr> canvas_width := innerWidth, canvas_height := innerHeight \<rparr>
      in case gRef wd1 of
           None \<Rightarrow> wd1
         | Some g \<Rightarrow>
             (let g1 = g\<lparr> g_w := canvas_width wd1, g_h := canvas_height wd1,
                          gndY := \<lfloor>real (canvas_height wd1) * GROUND_RATIO\<rfloor> \<rparr>;
                  (stars', k1) = genStars src (draws wd1) (real (g_w g1)) (real_of_int (gndY g1))
              in wd1\<lparr> gRef := Some (g1\<lparr> stars := stars' \<rparr>), draws := k1 \<rparr>))"

subsection \<open>\<^verbatim>\<open>doAction\<close>\<close>

definition doAction :: "physics \<Rightarrow> (nat \<Rightarrow> real) \<Rightarrow> world \<Rightarrow> world" where
  "doAction p src wd =
     (case gRef wd of
        None \<Rightarrow> wd
      | Some g \<Rightarrow>
          if phase g = Intro then wd\<lparr> gRef := Some (g\<lparr> phase := Playing \<rparr>) \<rparr>
          else if phase g = Playing then
            (if grounded (ch g)
             then wd\<lparr> gRef := Some (g\<lparr> ch := (ch g)\<lparr> vy := jumpForce p, grounded := False \<rparr> \<rparr>) \<rparr>
             else wd)
          else if phase g = GameOver then
            (let hi = hiScore g;
                 (g', k') = makeState p src wd
             in wd\<lparr> gRef := Some (g'\<lparr> hiScore := hi, phase := Playing \<rparr>), draws := k' \<rparr>)
          else wd)"

subsection \<open>\<^verbatim>\<open>loop\<close>: the update of one frame\<close>

text \<open>
  The update half of \<^verbatim>\<open>loop\<close> is given block by block, in the order of the source;
  \<open>update\<close> chains the blocks and \<open>loop\<close> adds the clock.

  First the run animation. The variable \<^verbatim>\<open>playing\<close> and the test on the phase are read
  before anything is changed.
\<close>

definition advanceAnimation :: "physics \<Rightarrow> real \<Rightarrow> game \<Rightarrow> game" where
  "advanceAnimation p dt g =
     (let playing = (phase g = Playing);
          animFps = (if playing
                     then Math_min (Num 16)
                            (js_mul (Num ANIM_FPS) (js_div (Num (speed g)) (Num (initSpeed p))))
                     else Num ANIM_FPS);
          c1 = (ch g)\<lparr> frameTick := js_add (frameTick (ch g)) (Num dt) \<rparr>;
          c2 = (if js_lt (js_div (Num 1000) animFps) (frameTick c1)
                then (let c' = (if phase g \<noteq> GameOver
                                then c1\<lparr> frame := (frame c1 + 1) mod length RUN_FRAMES \<rparr>
                                else c1)
                      in c'\<lparr> frameTick := js_sub (frameTick c') (js_div (Num 1000) animFps) \<rparr>)
                else c1)
      in g\<lparr> ch := c2 \<rparr>)"

text \<open>Clock, score, speed and the three scroll offsets.\<close>

definition advanceRun :: "physics \<Rightarrow> real \<Rightarrow> game \<Rightarrow> game" where
  "advanceRun p dt g =
     (let g1 = g\<lparr> g_t := g_t g + dt \<rparr>;
          g2 = g1\<lparr> score := score g1 + speed g1 * dt * SCORE_RATE * (1 / 10) \<rparr>;
          g3 = g2\<lparr> speed := min (maxSpeed p) (initSpeed p + score g2 * speedRate p) \<rparr>;
          g4 = g3\<lparr> gndOff := js_rem (gndOff g3 + speed g3) 55 \<rparr>;
          g5 = g4\<lparr> farOff := farOff g4 + speed g4 * (12 / 100) \<rparr>
      in g5\<lparr> nearOff := nearOff g5 + speed g5 * (38 / 100) \<rparr>)"

text \<open>The block \<^verbatim>\<open>// Physics\<close>.\<close>

definition integrate :: "physics \<Rightarrow> game \<Rightarrow> game" where
  "integrate p g =
     (let c1 = (ch g)\<lparr> vy := vy (ch g) + gravity p \<rparr>;
          c2 = c1\<lparr> ch_y := ch_y c1 + vy c1 \<rparr>;
          floor = real_of_int (gndY g) - CHAR_H;
          c3 = (if ch_y c2 \<ge> floor
                then c2\<lparr> ch_y := floor, vy := 0, grounded := True \<rparr>
                else c2)
      in g\<lparr> ch := c3\<lparr> bounce := (if grounded c3 then sin (g_t g * (12 / 1000)) * (25 / 10) else 0) \<rparr> \<rparr>)"

text \<open>
  The block \<^verbatim>\<open>// Spawn obstacles\<close>, up to and including the new countdown. It draws
  two random numbers when it spawns and none otherwise.
\<close>

definition spawn :: "physics \<Rightarrow> (nat \<Rightarrow> real) \<Rightarrow> real \<Rightarrow> game \<Rightarrow> nat \<Rightarrow> game \<times> nat" where
  "spawn p src dt g k =
     (let g1 = g\<lparr> nextGap := js_sub (nextGap g) (Num dt) \<rparr>
      in if js_le (nextGap g1) (Num 0)
         then (let type = nat \<lfloor>Math_random src k * real (length CACTUS_DEFS)\<rfloor>;
                   sz = getCactusSize type;
                   g2 = g1\<lparr> obs := obs g1 @
                           [\<lparr> o_x = real (g_w g1) + 60, o_type = type, o_w = fst sz, o_h = snd sz \<rparr>] \<rparr>;
                   px = minGap p + Math_random src (k + 1) * (maxGap p - minGap p)
               in (g2\<lparr> nextGap := js_mul (js_div (Num px) (Num (speed g2))) (Num (1000 / 60)) \<rparr>,
                   k + 2))
         else (g1, k))"

text \<open>Scrolling and culling of the obstacles.\<close>

definition scroll :: "game \<Rightarrow> game" where
  "scroll g =
     (let g1 = g\<lparr> obs := map (\<lambda>ob. ob\<lparr> o_x := o_x ob - speed g \<rparr>) (obs g) \<rparr>
      in g1\<lparr> obs := filter (\<lambda>ob. o_x ob + o_w ob > - 60) (obs g1) \<rparr>)"

text \<open>
  The block \<^verbatim>\<open>// Collision\<close>. \<open>hits\<close> is the condition of the \<^verbatim>\<open>if\<close> for one
  obstacle, with the four bounds of the character's box as the source names them.
\<close>

definition hits :: "game \<Rightarrow> obstacle \<Rightarrow> bool" where
  "hits g ob =
     (let cLeft = ch_x (ch g) + 12;
          cRight = ch_x (ch g) + CHAR_W - 12;
          cTop = ch_y (ch g) + 8;
          cBottom = ch_y (ch g) + CHAR_H - 4;
          oTop = real_of_int (gndY g) - o_h ob
      in cRight > o_x ob + 4 \<and>
         cLeft < o_x ob + o_w ob - 4 \<and>
         cBottom > oTop + 4 \<and>
         cTop < real_of_int (gndY g))"

text \<open>The body of that \<^verbatim>\<open>if\<close>, which ends with \<^verbatim>\<open>break\<close>.\<close>

definition gameOver :: "game \<Rightarrow> (string \<rightharpoonup> string) \<Rightarrow> game \<times> (string \<rightharpoonup> string)" where
  "gameOver g st =
     (let g1 = g\<lparr> phase := GameOver \<rparr>;
          newHi = Math_max (hiScore g1) (Num \<lfloor>score g1\<rfloor>)
      in (g1\<lparr> hiScore := newHi \<rparr>, st(''da_hi'' \<mapsto> String newHi)))"

text \<open>
  The loop \<^verbatim>\<open>for (const o of g.obs)\<close>: the list is what remains to be visited; a hit
  leaves the loop.
\<close>

fun collide ::
  "game \<Rightarrow> (string \<rightharpoonup> string) \<Rightarrow> obstacle list \<Rightarrow> game \<times> (string \<rightharpoonup> string)"
where
  "collide g st [] = (g, st)"
| "collide g st (ob # rest) = (if hits g ob then gameOver g st else collide g st rest)"

text \<open>The block \<^verbatim>\<open>// DOM score update\<close>, as far as it changes the state.\<close>

definition displayScore :: "game \<Rightarrow> game" where
  "displayScore g =
     (let dispScore = \<lfloor>score g\<rfloor>
      in if dispScore \<noteq> lastDisplayScore g then g\<lparr> lastDisplayScore := dispScore \<rparr> else g)"

text \<open>The blocks in sequence, on the game state, the store and the count of draws.\<close>

definition update ::
  "physics \<Rightarrow> (nat \<Rightarrow> real) \<Rightarrow> real \<Rightarrow> game \<Rightarrow> (string \<rightharpoonup> string) \<Rightarrow> nat
     \<Rightarrow> game \<times> (string \<rightharpoonup> string) \<times> nat"
where
  "update p src dt g st k =
     (let playing = (phase g = Playing);
          g0 = advanceAnimation p dt g
      in if playing
         then (let g1 = advanceRun p dt g0;
                   g2 = integrate p g1;
                   (g3, k') = spawn p src dt g2 k;
                   g4 = scroll g3;
                   (g5, st') = collide g4 st (obs g4)
               in (displayScore g5, st', k'))
         else (g0, st, k))"

text \<open>
  \<^verbatim>\<open>loop(ts)\<close>. With \<^verbatim>\<open>gRef.current\<close> still \<^verbatim>\<open>null\<close> the first property access
  throws, which is the result \<open>None\<close>.
\<close>

definition loop :: "physics \<Rightarrow> (nat \<Rightarrow> real) \<Rightarrow> real \<Rightarrow> world \<Rightarrow> world option" where
  "loop p src ts wd =
     (let dt = min (ts - lastTs wd) 50;
          wd1 = wd\<lparr> lastTs := ts \<rparr>
      in case gRef wd1 of
           None \<Rightarrow> None
         | Some g \<Rightarrow>
             (let (g', st', k') = update p src dt g (localStorage wd1) (draws wd1)
              in Some (wd1\<lparr> gRef := Some g', localStorage := st', draws := k' \<rparr>)))"

text \<open>
  The state on which the collision loop runs: the blocks before it, applied to a state
  in the playing phase.
\<close>

definition beforeCollision :: "physics \<Rightarrow> (nat \<Rightarrow> real) \<Rightarrow> real \<Rightarrow> game \<Rightarrow> nat \<Rightarrow> game" where
  "beforeCollision p src dt g k =
     scroll (fst (spawn p src dt (integrate p (advanceRun p dt (advanceAnimation p dt g))) k))"

subsection \<open>The life of the component\<close>

text \<open>
  The effect that runs when the component is mounted calls \<^verbatim>\<open>resize()\<close> and then
  \<^verbatim>\<open>gRef.current = makeState()\<close>, before it registers any handler. At that moment
  \<^verbatim>\<open>physicsRef.current\<close> still holds the defaults; the panel can change it only later.
\<close>

definition mount :: "physics \<Rightarrow> (nat \<Rightarrow> real) \<Rightarrow> nat \<Rightarrow> nat \<Rightarrow> world \<Rightarrow> world" where
  "mount p src innerWidth innerHeight wd =
     (let wd1 = resize src innerWidth innerHeight wd;
          (g, k) = makeState p src wd1
      in wd1\<lparr> gRef := Some g, draws := k \<rparr>)"

text \<open>
  Afterwards the browser calls the three handlers in any order: \<^verbatim>\<open>loop\<close> with a time
  stamp, \<^verbatim>\<open>doAction\<close> for a key, click or touch, \<^verbatim>\<open>resize\<close> with the new window
  size. Each call reads the parameters that \<^verbatim>\<open>physicsRef.current\<close> holds at that
  moment, so an event carries them.
\<close>

datatype event = Frame real | Action | Resize nat nat

definition dispatch :: "physics \<Rightarrow> (nat \<Rightarrow> real) \<Rightarrow> event \<Rightarrow> world \<Rightarrow> world option" where
  "dispatch p src ev wd =
     (case ev of
        Frame ts \<Rightarrow> loop p src ts wd
      | Action \<Rightarrow> Some (doAction p src wd)
      | Resize innerWidth innerHeight \<Rightarrow> Some (resize src innerWidth innerHeight wd))"

fun run :: "(nat \<Rightarrow> real) \<Rightarrow> (physics \<times> event) list \<Rightarrow> world \<Rightarrow> world option" where
  "run src [] wd = Some wd"
| "run src ((p, ev) # evs) wd =
     (case dispatch p src ev wd of
        None \<Rightarrow> None
      | Some wd' \<Rightarrow> run src evs wd')"

subsection \<open>Concrete states\<close>

text \<open>
  A run on an 800 by 600 canvas, the character standing on the floor (\<open>456 - 96\<close>),
  with an empty scenery; and the world that holds it.
\<close>

definition src0 :: "nat \<Rightarrow> real" where
  "src0 k = 1 / 2"

definition game0 :: game where
  "game0 =
     \<lparr> g_w = 800, g_h = 600, gndY = 456,
       phase = Playing, score = 0, hiScore = Num 3, speed = 5, g_t = 0,
       ch = \<lparr> ch_x = 110, ch_y = 360, vy = 0, grounded = True,
              frame = 0, frameTick = Num 0, bounce = 0 \<rparr>,
       obs = [], nextGap = Num 1400,
       gndOff = 0, farOff = 0, nearOff = 0,
       stars = [],
       far = \<lparr> buildings = [], totalW = 0 \<rparr>,
       near = \<lparr> buildings = [], totalW = 0 \<rparr>,
       lastDisplayScore = - 1 \<rparr>"

definition world0 :: "game \<Rightarrow> world" where
  "world0 g =
     \<lparr> canvas_width = 800, canvas_height = 600, localStorage = Map.empty,
       gRef = Some g, lastTs = 0, draws = 0 \<rparr>"

text \<open>The world before the component is mounted, with a canvas of the default size.\<close>

definition world_init :: world where
  "world_init =
     \<lparr> canvas_width = 300, canvas_height = 150, localStorage = Map.empty,
       gRef = None, lastTs = 0, draws = 0 \<rparr>"

text \<open>The same world with a value stored under the key of the high score.\<close>

definition world_stored :: "string \<Rightarrow> world" where
  "world_stored v = world_init\<lparr> localStorage := [''da_hi'' \<mapsto> v] \<rparr>"

text \<open>An obstacle of type 0 (49 by 77 pixels) with its left edge at \<open>x0\<close>.\<close>

definition cactus_at :: "real \<Rightarrow> obstacle" where
  "cactus_at x0 = \<lparr> o_x = x0, o_type = 0, o_w = 49, o_h = 77 \<rparr>"

text \<open>
  Three settings of the panel. In the first the slider of the initial speed is at its
  maximum and the slider of the maximal speed at its minimum. In the second only the
  slider of the maximal speed has been moved, to its minimum. The third has a maximal
  speed of zero, which no slider offers.
\<close>

definition sliders_crossed :: physics where
  "sliders_crossed = PHYSICS_DEFAULTS\<lparr> initSpeed := 20, maxSpeed := 5 \<rparr>"

definition max_lowered :: physics where
  "max_lowered = PHYSICS_DEFAULTS\<lparr> maxSpeed := 5 \<rparr>"

definition speed_zero :: physics where
  "speed_zero = PHYSICS_DEFAULTS\<lparr> maxSpeed := 0 \<rparr>"

subsection \<open>Comparing two values of the high score\<close>

text \<open>
  \<open>nondecreasing a b\<close>: \<open>b\<close> is at least \<open>a\<close> by the comparison of the language, with
  an integer staying an integer; or both are \<^verbatim>\<open>NaN\<close>, which compares with nothing.
\<close>

definition nondecreasing :: "int jsval \<Rightarrow> int jsval \<Rightarrow> bool" where
  "nondecreasing a b =
     ((js_le a b \<or> a = NaN \<and> b = NaN) \<and>
      (\<forall>h. a = Num h \<longrightarrow> (\<exists>h'. b = Num h' \<and> h \<le> h')))"

subsection \<open>Runs with fixed parameters\<close>

text \<open>
  \<open>on_curve p g\<close>: the speed of \<open>g\<close> is the value that the update of the speed computes
  from the score of \<open>g\<close> under the parameters \<open>p\<close>, and the score is not negative.
\<close>

definition on_curve :: "physics \<Rightarrow> game \<Rightarrow> bool" where
  "on_curve p g =
     (speed g = min (maxSpeed p) (initSpeed p + score g * speedRate p) \<and> 0 \<le> score g)"

text \<open>
  \<open>steady p t0 evs\<close>: every event of \<open>evs\<close> carries the parameters \<open>p\<close>, and the time
  stamps of the frames do not decrease, starting from \<open>t0\<close>.
\<close>

fun steady :: "physics \<Rightarrow> real \<Rightarrow> (physics \<times> event) list \<Rightarrow> bool" where
  "steady p t0 [] = True"
| "steady p t0 ((q, Frame ts) # evs) = (q = p \<and> t0 \<le> ts \<and> steady p ts evs)"
| "steady p t0 ((q, Action) # evs) = (q = p \<and> steady p t0 evs)"
| "steady p t0 ((q, Resize iw ih) # evs) = (q = p \<and> steady p t0 evs)"

subsection \<open>What the settings panel can deliver\<close>

text \<open>
  The parameters are written by the sliders of \<^verbatim>\<open>SLIDER_GROUPS\<close> in the settings panel
  and by its reset button, and by nothing else. A range input keeps its value between its
  \<^verbatim>\<open>min\<close> and \<^verbatim>\<open>max\<close>; \<open>offered p\<close> says that each parameter of \<open>p\<close> is within
  the bounds of its slider. The steps of the sliders are left out, so \<open>offered\<close> admits
  more than the panel does.
\<close>

definition offered :: "physics \<Rightarrow> bool" where
  "offered p =
     (1 / 10 \<le> gravity p \<and> gravity p \<le> 2 \<and>
      - 30 \<le> jumpForce p \<and> jumpForce p \<le> - 2 \<and>
      1 \<le> initSpeed p \<and> initSpeed p \<le> 20 \<and>
      5 \<le> maxSpeed p \<and> maxSpeed p \<le> 50 \<and>
      1 / 1000 \<le> speedRate p \<and> speedRate p \<le> 5 / 100 \<and>
      100 \<le> minGap p \<and> minGap p \<le> 800 \<and>
      400 \<le> maxGap p \<and> maxGap p \<le> 1600)"


text \<open>
  What such runs maintain: a score that is not negative, a speed of at least 1, and a
  finite countdown.
\<close>

definition sound :: "game \<Rightarrow> bool" where
  "sound g = (0 \<le> score g \<and> 1 \<le> speed g \<and> (\<exists>v. nextGap g = Num v))"

text \<open>The gap sliders crossed: the minimal gap at its maximum, the maximal gap at its minimum.\<close>

definition gaps_crossed :: physics where
  "gaps_crossed = PHYSICS_DEFAULTS\<lparr> minGap := 800, maxGap := 400 \<rparr>"

section \<open>Properties\<close>

subsection \<open>What each block leaves alone\<close>

lemma CHAR_W_val: "CHAR_W = 83"
  by (simp add: CHAR_W_def Math_round_def CHAR_H_def FRAME_W_def FRAME_H_def)

lemma spawn_frame:
  "ch (fst (spawn p src dt g k)) = ch g"
  "gndY (fst (spawn p src dt g k)) = gndY g"
  "phase (fst (spawn p src dt g k)) = phase g"
  "score (fst (spawn p src dt g k)) = score g"
  "hiScore (fst (spawn p src dt g k)) = hiScore g"
  "speed (fst (spawn p src dt g k)) = speed g"
  by (simp_all add: spawn_def Let_def)

lemma scroll_frame:
  "ch (scroll g) = ch g"
  "gndY (scroll g) = gndY g"
  "phase (scroll g) = phase g"
  "score (scroll g) = score g"
  "hiScore (scroll g) = hiScore g"
  "speed (scroll g) = speed g"
  "nextGap (scroll g) = nextGap g"
  by (simp_all add: scroll_def Let_def)

lemma gameOver_frame:
  "ch (fst (gameOver g st)) = ch g"
  "gndY (fst (gameOver g st)) = gndY g"
  "score (fst (gameOver g st)) = score g"
  "speed (fst (gameOver g st)) = speed g"
  "obs (fst (gameOver g st)) = obs g"
  "nextGap (fst (gameOver g st)) = nextGap g"
  by (simp_all add: gameOver_def Let_def)

lemma collide_frame:
  "ch (fst (collide g st os)) = ch g"
  "gndY (fst (collide g st os)) = gndY g"
  "score (fst (collide g st os)) = score g"
  "speed (fst (collide g st os)) = speed g"
  "obs (fst (collide g st os)) = obs g"
  "nextGap (fst (collide g st os)) = nextGap g"
  by (induction os) (simp_all add: gameOver_frame)

lemma displayScore_frame:
  "ch (displayScore g) = ch g"
  "gndY (displayScore g) = gndY g"
  "phase (displayScore g) = phase g"
  "score (displayScore g) = score g"
  "hiScore (displayScore g) = hiScore g"
  "speed (displayScore g) = speed g"
  "obs (displayScore g) = obs g"
  "nextGap (displayScore g) = nextGap g"
  by (simp_all add: displayScore_def Let_def)

lemma advanceAnimation_frame:
  "ch_x (ch (advanceAnimation p dt g)) = ch_x (ch g)"
  "ch_y (ch (advanceAnimation p dt g)) = ch_y (ch g)"
  "vy (ch (advanceAnimation p dt g)) = vy (ch g)"
  "grounded (ch (advanceAnimation p dt g)) = grounded (ch g)"
  "gndY (advanceAnimation p dt g) = gndY g"
  "phase (advanceAnimation p dt g) = phase g"
  "score (advanceAnimation p dt g) = score g"
  "hiScore (advanceAnimation p dt g) = hiScore g"
  "speed (advanceAnimation p dt g) = speed g"
  "obs (advanceAnimation p dt g) = obs g"
  "nextGap (advanceAnimation p dt g) = nextGap g"
  by (simp_all add: advanceAnimation_def Let_def)

lemma advanceRun_frame:
  "ch (advanceRun p dt g) = ch g"
  "gndY (advanceRun p dt g) = gndY g"
  "phase (advanceRun p dt g) = phase g"
  "hiScore (advanceRun p dt g) = hiScore g"
  "obs (advanceRun p dt g) = obs g"
  "nextGap (advanceRun p dt g) = nextGap g"
  by (simp_all add: advanceRun_def Let_def)

lemma integrate_frame:
  "gndY (integrate p g) = gndY g"
  "phase (integrate p g) = phase g"
  "score (integrate p g) = score g"
  "hiScore (integrate p g) = hiScore g"
  "speed (integrate p g) = speed g"
  "obs (integrate p g) = obs g"
  "nextGap (integrate p g) = nextGap g"
  by (simp_all add: integrate_def Let_def)

subsection \<open>The shape of one frame\<close>

lemma update_playing:
  "phase g = Playing \<Longrightarrow>
   update p src dt g st k =
     (displayScore (fst (collide (beforeCollision p src dt g k) st (obs (beforeCollision p src dt g k)))),
      snd (collide (beforeCollision p src dt g k) st (obs (beforeCollision p src dt g k))),
      snd (spawn p src dt (integrate p (advanceRun p dt (advanceAnimation p dt g))) k))"
  by (simp add: update_def beforeCollision_def Let_def split_beta)

lemma update_idle:
  "phase g \<noteq> Playing \<Longrightarrow> update p src dt g st k = (advanceAnimation p dt g, st, k)"
  by (simp add: update_def Let_def)

lemma loop_Some:
  "gRef wd = Some g \<Longrightarrow>
   loop p src ts wd =
     Some (wd\<lparr> lastTs := ts,
               gRef := Some (fst (update p src (min (ts - lastTs wd) 50) g (localStorage wd) (draws wd))),
               localStorage := fst (snd (update p src (min (ts - lastTs wd) 50) g (localStorage wd) (draws wd))),
               draws := snd (snd (update p src (min (ts - lastTs wd) 50) g (localStorage wd) (draws wd))) \<rparr>)"
  by (simp add: loop_def Let_def split_beta)

lemma beforeCollision_frame:
  "ch (beforeCollision p src dt g k) = ch (integrate p (advanceRun p dt (advanceAnimation p dt g)))"
  "gndY (beforeCollision p src dt g k) = gndY g"
  "phase (beforeCollision p src dt g k) = phase g"
  "hiScore (beforeCollision p src dt g k) = hiScore g"
  "score (beforeCollision p src dt g k) = score (advanceRun p dt (advanceAnimation p dt g))"
  "speed (beforeCollision p src dt g k) = speed (advanceRun p dt (advanceAnimation p dt g))"
  by (simp_all add: beforeCollision_def scroll_frame spawn_frame integrate_frame advanceRun_frame
      advanceAnimation_frame)

subsection \<open>The floor\<close>

lemma integrate_clamp:
  "ch_y (ch (integrate p g)) \<le> real_of_int (gndY g) - CHAR_H"
  "real_of_int (gndY g) - CHAR_H \<le> ch_y (ch g) + (vy (ch g) + gravity p) \<Longrightarrow>
     ch_y (ch (integrate p g)) = real_of_int (gndY g) - CHAR_H \<and>
     vy (ch (integrate p g)) = 0 \<and> grounded (ch (integrate p g))"
  by (simp_all add: integrate_def Let_def)

text \<open>
  C1. A call of \<open>loop\<close> in the playing phase, whatever the time stamp and so whatever
  \<open>dt\<close>, leaves the character at or above the floor \<open>gndY - CHAR_H\<close> (\<open>y\<close> grows
  downwards). The clamp fires when the integrated position \<open>y + (vy + gravity)\<close> reaches the
  floor, and then \<open>y\<close> is the floor, \<open>vy\<close> is 0 and \<open>grounded\<close> is true.
\<close>

theorem loop_floor_clamp:
  assumes "gRef wd = Some g" and "phase g = Playing"
  shows "\<exists>wd' g'. loop p src ts wd = Some wd' \<and> gRef wd' = Some g' \<and>
           gndY g' = gndY g \<and>
           ch_y (ch g') \<le> real_of_int (gndY g) - CHAR_H \<and>
           (real_of_int (gndY g) - CHAR_H \<le> ch_y (ch g) + (vy (ch g) + gravity p) \<longrightarrow>
              ch_y (ch g') = real_of_int (gndY g) - CHAR_H \<and> vy (ch g') = 0 \<and> grounded (ch g'))"
proof -
  let ?dt = "min (ts - lastTs wd) 50"
  let ?u = "update p src ?dt g (localStorage wd) (draws wd)"
  let ?g1 = "advanceRun p ?dt (advanceAnimation p ?dt g)"
  have c: "ch (fst ?u) = ch (integrate p ?g1)"
    using assms(2) by (simp add: update_playing displayScore_frame collide_frame beforeCollision_frame)
  have y: "gndY (fst ?u) = gndY g"
    using assms(2) by (simp add: update_playing displayScore_frame collide_frame beforeCollision_frame)
  have g1: "gndY ?g1 = gndY g" "ch_y (ch ?g1) = ch_y (ch g)" "vy (ch ?g1) = vy (ch g)"
    by (simp_all add: advanceRun_frame advanceAnimation_frame)
  have a: "ch_y (ch (fst ?u)) \<le> real_of_int (gndY g) - CHAR_H"
    using integrate_clamp(1)[of p ?g1] by (simp add: c g1)
  have b: "real_of_int (gndY g) - CHAR_H \<le> ch_y (ch g) + (vy (ch g) + gravity p) \<longrightarrow>
        ch_y (ch (fst ?u)) = real_of_int (gndY g) - CHAR_H \<and> vy (ch (fst ?u)) = 0 \<and>
        grounded (ch (fst ?u))"
    using integrate_clamp(2)[of ?g1 p] by (simp add: c g1)
  show ?thesis
    using a b y by (simp add: loop_Some[OF assms(1)])
qed

theorem loop_floor_clamp_witness:
  "gRef (world0 game0) = Some game0 \<and> phase game0 = Playing \<and>
   real_of_int (gndY game0) - CHAR_H \<le> ch_y (ch game0) + (vy (ch game0) + gravity PHYSICS_DEFAULTS) \<and>
   (\<exists>wd' g'. loop PHYSICS_DEFAULTS src0 16 (world0 game0) = Some wd' \<and> gRef wd' = Some g' \<and>
      ch_y (ch g') = 360 \<and> vy (ch g') = 0 \<and> grounded (ch g'))"
proof -
  have h1: "gRef (world0 game0) = Some game0" by (simp add: world0_def)
  have h2: "phase game0 = Playing" by (simp add: game0_def)
  have h3: "real_of_int (gndY game0) - CHAR_H
              \<le> ch_y (ch game0) + (vy (ch game0) + gravity PHYSICS_DEFAULTS)"
    by (simp add: game0_def CHAR_H_def PHYSICS_DEFAULTS_def GRAVITY_def)
  have v: "real_of_int (gndY game0) - CHAR_H = 360" by (simp add: game0_def CHAR_H_def)
  from loop_floor_clamp[OF h1 h2, of PHYSICS_DEFAULTS src0 16] h3 v
  show ?thesis using h1 h2 by auto
qed

subsection \<open>Facts about the concrete states\<close>

lemma world0_fields:
  "gRef (world0 g) = Some g" "lastTs (world0 g) = 0" "draws (world0 g) = 0"
  "localStorage (world0 g) = Map.empty"
  by (simp_all add: world0_def)

lemma getCactusSize_values:
  "getCactusSize 0 = (49, 77)" "getCactusSize 1 = (49, 84)" "getCactusSize 2 = (56, 63)"
  by (simp_all add: getCactusSize_def CACTUS_DEFS_def Let_def)

lemma cactus_type_in_table:
  "nat \<lfloor>Math_random src k * real (length CACTUS_DEFS)\<rfloor> < length CACTUS_DEFS"
proof -
  have l: "length CACTUS_DEFS = 3" by (simp add: CACTUS_DEFS_def)
  have "Math_random src k < 1"
    using frac_lt_1[of "src k"] by (simp add: Math_random_def)
  then have "\<lfloor>Math_random src k * 3\<rfloor> < 3" by linarith
  then have "nat \<lfloor>Math_random src k * 3\<rfloor> < 3" by linarith
  then show ?thesis by (simp only: l of_nat_numeral)
qed

subsection \<open>Score and speed in one frame\<close>

lemma update_score:
  "phase g = Playing \<Longrightarrow>
   score (fst (update p src dt g st k)) = score g + speed g * dt * SCORE_RATE * (1 / 10)"
  by (simp add: update_playing displayScore_frame collide_frame beforeCollision_frame
      advanceRun_def Let_def advanceAnimation_frame)

lemma update_speed:
  "phase g = Playing \<Longrightarrow>
   speed (fst (update p src dt g st k)) =
     min (maxSpeed p) (initSpeed p + score (fst (update p src dt g st k)) * speedRate p)"
  by (simp add: update_playing displayScore_frame collide_frame beforeCollision_frame
      advanceRun_def Let_def advanceAnimation_frame)

subsection \<open>Collision\<close>

lemma collide_miss:
  "(\<forall>q \<in> set os. \<not> hits g q) \<Longrightarrow> collide g st os = (g, st)"
  by (induction os) simp_all

lemma collide_first_hit:
  "(\<forall>q \<in> set pre. \<not> hits g q) \<Longrightarrow> hits g ob \<Longrightarrow>
   collide g st (pre @ ob # post) = gameOver g st"
  by (induction pre) simp_all

lemma collide_hit:
  "\<exists>ob \<in> set os. hits g ob \<Longrightarrow> collide g st os = gameOver g st"
  by (induction os) auto

text \<open>
  C9. The test of one obstacle is the conjunction of the four comparisons, with the
  character's box inset by 12, 12, 8 and 4 pixels from a sprite of 83 by 96 and the
  obstacle's box inset by the margin 4 on its left, right and top. In the loop over the
  obstacles, the first one in list order that passes the test ends the game, and the
  result is the game-over state whatever follows it in the list: the loop is left there.
  With no obstacle passing the test the loop changes nothing.
\<close>

theorem collision_detector:
  "(hits g ob \<longleftrightarrow>
      ch_x (ch g) + 83 - 12 > o_x ob + 4 \<and>
      ch_x (ch g) + 12 < o_x ob + o_w ob - 4 \<and>
      ch_y (ch g) + 96 - 4 > (real_of_int (gndY g) - o_h ob) + 4 \<and>
      ch_y (ch g) + 8 < real_of_int (gndY g)) \<and>
   ((\<forall>q \<in> set pre. \<not> hits g q) \<and> hits g ob \<longrightarrow>
      collide g st (pre @ ob # post) = gameOver g st \<and>
      phase (fst (gameOver g st)) = GameOver) \<and>
   ((\<forall>q \<in> set os. \<not> hits g q) \<longrightarrow> collide g st os = (g, st))"
  by (simp add: collide_miss collide_first_hit)
     (simp add: hits_def CHAR_W_val CHAR_H_def gameOver_def Let_def)

theorem collision_detector_witness:
  "\<not> hits game0 (cactus_at 900) \<and> hits game0 (cactus_at 150) \<and>
   collide game0 (localStorage (world0 game0)) ([cactus_at 900] @ cactus_at 150 # [cactus_at 160]) =
     gameOver game0 (localStorage (world0 game0)) \<and>
   phase (fst (gameOver game0 (localStorage (world0 game0)))) = GameOver \<and>
   collide game0 (localStorage (world0 game0)) [cactus_at 900] = (game0, localStorage (world0 game0))"
proof -
  have a: "\<forall>q \<in> set [cactus_at 900]. \<not> hits game0 q"
    by (simp add: hits_def Let_def game0_def cactus_at_def CHAR_W_val CHAR_H_def)
  have b: "hits game0 (cactus_at 150)"
    by (simp add: hits_def Let_def game0_def cactus_at_def CHAR_W_val CHAR_H_def)
  show ?thesis
    using collision_detector[of game0 "cactus_at 150" "[cactus_at 900]"
        "localStorage (world0 game0)" "[cactus_at 160]" "[cactus_at 900]"] a b
    by auto
qed

text \<open>
  C2. In a call of \<open>loop\<close> in the playing phase, if some obstacle of the list the
  collision loop runs over (after spawning, scrolling and culling in that frame) passes
  the test against the character as left by the physics of that frame, then afterwards
  the phase is \<open>GameOver\<close>, \<open>hiScore\<close> is \<^verbatim>\<open>Math.max\<close> of its old value and the floor
  of the score, and the store differs from the old one exactly in holding the text of
  that value under \<^verbatim>\<open>da_hi\<close>.
\<close>

theorem loop_collision:
  assumes "gRef wd = Some g" and "phase g = Playing"
    and "\<exists>ob \<in> set (obs (beforeCollision p src (min (ts - lastTs wd) 50) g (draws wd))).
            hits (beforeCollision p src (min (ts - lastTs wd) 50) g (draws wd)) ob"
  shows "\<exists>wd' g'. loop p src ts wd = Some wd' \<and> gRef wd' = Some g' \<and>
           phase g' = GameOver \<and>
           hiScore g' = Math_max (hiScore g) (Num \<lfloor>score g'\<rfloor>) \<and>
           (\<forall>h. hiScore g = Num h \<longrightarrow> hiScore g' = Num (max h \<lfloor>score g'\<rfloor>)) \<and>
           localStorage wd' = (localStorage wd)(''da_hi'' \<mapsto> String (hiScore g'))"
proof -
  let ?dt = "min (ts - lastTs wd) 50"
  let ?b = "beforeCollision p src ?dt g (draws wd)"
  let ?u = "update p src ?dt g (localStorage wd) (draws wd)"
  have c: "collide ?b (localStorage wd) (obs ?b) = gameOver ?b (localStorage wd)"
    using assms(3) by (rule collide_hit)
  have u: "fst ?u = displayScore (fst (gameOver ?b (localStorage wd)))"
          "fst (snd ?u) = snd (gameOver ?b (localStorage wd))"
    using assms(2) by (simp_all add: update_playing c)
  have m: "\<forall>h. Math_max (Num h) (Num \<lfloor>score ?b\<rfloor>) = Num (max h \<lfloor>score ?b\<rfloor>)"
    by (simp add: max_def)
  have "phase (fst ?u) = GameOver"
       "hiScore (fst ?u) = Math_max (hiScore g) (Num \<lfloor>score (fst ?u)\<rfloor>)"
       "fst (snd ?u) = (localStorage wd)(''da_hi'' \<mapsto> String (hiScore (fst ?u)))"
    by (simp_all add: u displayScore_frame gameOver_def Let_def beforeCollision_frame)
  moreover have "\<forall>h. hiScore g = Num h \<longrightarrow> hiScore (fst ?u) = Num (max h \<lfloor>score (fst ?u)\<rfloor>)"
    using m by (simp add: u displayScore_frame gameOver_def Let_def beforeCollision_frame)
  ultimately show ?thesis
    by (simp add: loop_Some[OF assms(1)])
qed

theorem loop_collision_witness:
  "gRef (world0 (game0\<lparr> obs := [cactus_at 150] \<rparr>)) = Some (game0\<lparr> obs := [cactus_at 150] \<rparr>) \<and>
   phase (game0\<lparr> obs := [cactus_at 150] \<rparr>) = Playing \<and>
   (\<exists>wd' g'. loop PHYSICS_DEFAULTS src0 16 (world0 (game0\<lparr> obs := [cactus_at 150] \<rparr>)) = Some wd' \<and>
      gRef wd' = Some g' \<and> phase g' = GameOver \<and> hiScore g' = Num 3 \<and>
      localStorage wd' ''da_hi'' = Some ''3'')"
proof -
  let ?g = "game0\<lparr> obs := [cactus_at 150] \<rparr>"
  let ?b = "beforeCollision PHYSICS_DEFAULTS src0 (min (16 - lastTs (world0 ?g)) 50) ?g (draws (world0 ?g))"
  let ?u = "update PHYSICS_DEFAULTS src0 (min (16 - lastTs (world0 ?g)) 50) ?g
              (localStorage (world0 ?g)) (draws (world0 ?g))"
  have h1: "gRef (world0 ?g) = Some ?g" by (simp add: world0_def)
  have h2: "phase ?g = Playing" by (simp add: game0_def)
  have sp: "speed (advanceRun PHYSICS_DEFAULTS 16 (advanceAnimation PHYSICS_DEFAULTS 16 ?g)) =
              625126 / 125000"
    by (simp add: advanceRun_def Let_def advanceAnimation_frame)
       (simp add: game0_def PHYSICS_DEFAULTS_def MAX_SPEED_def INIT_SPEED_def SPEED_RATE_def
          SCORE_RATE_def)
  have o: "obs ?b = [cactus_at (150 - 625126 / 125000)]"
    by (simp add: world0_fields beforeCollision_def scroll_def Let_def spawn_frame integrate_frame sp)
       (simp add: spawn_def Let_def integrate_frame advanceRun_frame advanceAnimation_frame js_sub_def
          game0_def cactus_at_def)
  have c: "ch_x (ch ?b) = 110" "ch_y (ch ?b) = 360" "gndY ?b = 456"
    by (simp_all add: world0_fields beforeCollision_frame integrate_def Let_def advanceRun_frame
        advanceAnimation_frame)
       (simp_all add: game0_def CHAR_H_def PHYSICS_DEFAULTS_def GRAVITY_def)
  have h3: "\<exists>ob \<in> set (obs ?b). hits ?b ob"
    by (simp add: o hits_def Let_def c) (simp add: CHAR_W_val CHAR_H_def cactus_at_def)
  have hi: "hiScore ?g = Num 3" by (simp add: game0_def)
  have st: "((localStorage (world0 ?g))(''da_hi'' \<mapsto> String (Num 3))) ''da_hi'' = Some ''3''"
    by (simp add: decimal.simps)
  from loop_collision[OF h1 h2 h3] obtain wd' g' where
    r: "loop PHYSICS_DEFAULTS src0 16 (world0 ?g) = Some wd'" "gRef wd' = Some g'"
       "phase g' = GameOver" "hiScore g' = Math_max (hiScore ?g) (Num \<lfloor>score g'\<rfloor>)"
       "\<forall>h. hiScore ?g = Num h \<longrightarrow> hiScore g' = Num (max h \<lfloor>score g'\<rfloor>)"
       "localStorage wd' = (localStorage (world0 ?g))(''da_hi'' \<mapsto> String (hiScore g'))"
    by blast
  have "loop PHYSICS_DEFAULTS src0 16 (world0 ?g) =
          Some ((world0 ?g)\<lparr> lastTs := 16, gRef := Some (fst ?u),
                  localStorage := fst (snd ?u), draws := snd (snd ?u) \<rparr>)"
    by (rule loop_Some[OF h1])
  with r(1,2) have g': "g' = fst ?u" by auto
  have s': "score g' = 72 / 1000"
    unfolding g'
    by (simp add: update_score[OF h2] world0_fields) (simp add: game0_def SCORE_RATE_def)
  have "hiScore g' = Num 3" using r(5) hi s' by simp
  then show ?thesis using h1 h2 r st by auto
qed

subsection \<open>The action\<close>

lemma makeState_fields:
  "phase (fst (makeState p src wd)) = Intro"
  "score (fst (makeState p src wd)) = 0"
  "speed (fst (makeState p src wd)) = initSpeed p"
  "hiScore (fst (makeState p src wd)) = parseInt (storedHi (localStorage wd))"
  "grounded (ch (fst (makeState p src wd)))"
  by (simp_all add: makeState_def Let_def split_beta)

lemma mount_gRef:
  "gRef (mount p src iw ih wd) = Some (fst (makeState p src (resize src iw ih wd)))"
  by (simp add: mount_def Let_def split_beta)

text \<open>
  C5. In the playing phase \<open>doAction\<close> on a grounded character changes two fields and
  nothing else: \<open>vy\<close> becomes the jump force and \<open>grounded\<close> becomes false. On an
  airborne character it returns the world it was given. The default jump force is
  negative, which is upwards.
\<close>

theorem doAction_jump:
  assumes "gRef wd = Some g" and "phase g = Playing"
  shows "(grounded (ch g) \<longrightarrow>
            doAction p src wd =
              wd\<lparr> gRef := Some (g\<lparr> ch := (ch g)\<lparr> vy := jumpForce p, grounded := False \<rparr> \<rparr>) \<rparr>) \<and>
         (\<not> grounded (ch g) \<longrightarrow> doAction p src wd = wd) \<and>
         jumpForce PHYSICS_DEFAULTS < 0"
  using assms by (simp add: doAction_def PHYSICS_DEFAULTS_def JUMP_FORCE_def)

theorem doAction_jump_witness:
  "gRef (world0 game0) = Some game0 \<and> phase game0 = Playing \<and> grounded (ch game0) \<and>
   doAction PHYSICS_DEFAULTS src0 (world0 game0) =
     (world0 game0)\<lparr> gRef := Some (game0\<lparr> ch := (ch game0)\<lparr> vy := - 15, grounded := False \<rparr> \<rparr>) \<rparr> \<and>
   \<not> grounded (ch (game0\<lparr> ch := (ch game0)\<lparr> vy := - 15, grounded := False \<rparr> \<rparr>)) \<and>
   doAction PHYSICS_DEFAULTS src0
     (world0 (game0\<lparr> ch := (ch game0)\<lparr> vy := - 15, grounded := False \<rparr> \<rparr>)) =
     world0 (game0\<lparr> ch := (ch game0)\<lparr> vy := - 15, grounded := False \<rparr> \<rparr>)"
proof -
  let ?air = "game0\<lparr> ch := (ch game0)\<lparr> vy := - 15, grounded := False \<rparr> \<rparr>"
  have h: "gRef (world0 game0) = Some game0" "phase game0 = Playing" "grounded (ch game0)"
          "gRef (world0 ?air) = Some ?air" "phase ?air = Playing" "\<not> grounded (ch ?air)"
    by (simp_all add: world0_def game0_def)
  have j: "jumpForce PHYSICS_DEFAULTS = - 15"
    by (simp add: PHYSICS_DEFAULTS_def JUMP_FORCE_def)
  show ?thesis
    using doAction_jump[OF h(1,2), of PHYSICS_DEFAULTS src0]
      doAction_jump[OF h(4,5), of PHYSICS_DEFAULTS src0] h j
    by simp
qed

text \<open>
  C6. In the game-over phase \<open>doAction\<close> installs a state with score 0, the speed
  \<open>initSpeed\<close>, the phase \<open>Playing\<close> and the high score the old state had.
\<close>

theorem doAction_retry:
  assumes "gRef wd = Some g" and "phase g = GameOver"
  shows "\<exists>g'. gRef (doAction p src wd) = Some g' \<and>
           score g' = 0 \<and> speed g' = initSpeed p \<and> phase g' = Playing \<and>
           hiScore g' = hiScore g"
  using assms by (simp add: doAction_def makeState_def Let_def split_beta)

theorem doAction_retry_witness:
  "gRef (world0 (game0\<lparr> phase := GameOver, score := 41 \<rparr>)) =
     Some (game0\<lparr> phase := GameOver, score := 41 \<rparr>) \<and>
   phase (game0\<lparr> phase := GameOver, score := 41 \<rparr>) = GameOver \<and>
   (\<exists>g'. gRef (doAction PHYSICS_DEFAULTS src0 (world0 (game0\<lparr> phase := GameOver, score := 41 \<rparr>))) =
            Some g' \<and>
      score g' = 0 \<and> speed g' = 5 \<and> phase g' = Playing \<and> hiScore g' = Num 3)"
proof -
  let ?g = "game0\<lparr> phase := GameOver, score := 41 \<rparr>"
  have h: "gRef (world0 ?g) = Some ?g" "phase ?g = GameOver"
    by (simp_all add: world0_def)
  have v: "initSpeed PHYSICS_DEFAULTS = 5" "hiScore ?g = Num 3"
    by (simp_all add: PHYSICS_DEFAULTS_def INIT_SPEED_def game0_def)
  show ?thesis
    using doAction_retry[OF h, of PHYSICS_DEFAULTS src0] h v by simp
qed

subsection \<open>Resizing\<close>

lemma genStars_length: "length (fst (genStars src k w gy)) = 180"
  by (simp add: genStars_def)

lemma resize_Some:
  "gRef wd = Some g \<Longrightarrow>
   \<exists>g'. gRef (resize src iw ih wd) = Some g' \<and>
        gndY g' = \<lfloor>real ih * GROUND_RATIO\<rfloor> \<and> length (stars g') = 180 \<and>
        score g' = score g \<and> phase g' = phase g"
  by (simp add: resize_def Let_def split_beta genStars_length)

text \<open>
  C10. Two calls of \<open>resize\<close> with the same window size, one after the other: after
  each, \<open>gndY\<close> is the floor of the height times \<open>GROUND_RATIO\<close>, the star field has
  180 stars, and score and phase are those of the state before the first call.
\<close>

theorem resize_twice:
  assumes "gRef wd = Some g"
  shows "\<exists>g1 g2. gRef (resize src iw ih wd) = Some g1 \<and>
           gRef (resize src iw ih (resize src iw ih wd)) = Some g2 \<and>
           gndY g1 = \<lfloor>real ih * GROUND_RATIO\<rfloor> \<and> gndY g2 = gndY g1 \<and>
           length (stars g1) = 180 \<and> length (stars g2) = 180 \<and>
           score g1 = score g \<and> score g2 = score g \<and>
           phase g1 = phase g \<and> phase g2 = phase g"
proof -
  from resize_Some[OF assms, of src iw ih] obtain g1 where
    1: "gRef (resize src iw ih wd) = Some g1" "gndY g1 = \<lfloor>real ih * GROUND_RATIO\<rfloor>"
       "length (stars g1) = 180" "score g1 = score g" "phase g1 = phase g"
    by blast
  from resize_Some[OF 1(1), of src iw ih] obtain g2 where
    2: "gRef (resize src iw ih (resize src iw ih wd)) = Some g2"
       "gndY g2 = \<lfloor>real ih * GROUND_RATIO\<rfloor>"
       "length (stars g2) = 180" "score g2 = score g1" "phase g2 = phase g1"
    by blast
  show ?thesis using 1 2 by simp
qed

theorem resize_twice_witness:
  "gRef (world0 game0) = Some game0 \<and>
   (\<exists>g1 g2. gRef (resize src0 1024 768 (world0 game0)) = Some g1 \<and>
      gRef (resize src0 1024 768 (resize src0 1024 768 (world0 game0))) = Some g2 \<and>
      gndY g1 = 583 \<and> gndY g2 = 583 \<and>
      length (stars g1) = 180 \<and> length (stars g2) = 180 \<and>
      score g1 = 0 \<and> score g2 = 0 \<and> phase g1 = Playing \<and> phase g2 = Playing)"
proof -
  have h: "gRef (world0 game0) = Some game0" by (simp add: world0_def)
  have v: "\<lfloor>real 768 * GROUND_RATIO\<rfloor> = 583" "score game0 = 0" "phase game0 = Playing"
    by (simp_all add: GROUND_RATIO_def game0_def)
  show ?thesis
    using resize_twice[OF h, of src0 1024 768] h v by auto
qed

subsection \<open>The high score over the life of the component\<close>

lemma nondecreasing_refl: "nondecreasing a a"
  by (cases a) (simp_all add: nondecreasing_def)

lemma nondecreasing_trans: "nondecreasing a b \<Longrightarrow> nondecreasing b c \<Longrightarrow> nondecreasing a c"
  by (cases a; cases b; cases c) (auto simp: nondecreasing_def)

lemma nondecreasing_Math_max: "nondecreasing a (Math_max a (Num n))"
  by (cases a) (simp_all add: nondecreasing_def)

lemma collide_hiScore: "nondecreasing (hiScore g) (hiScore (fst (collide g st os)))"
  by (induction os) (simp_all add: nondecreasing_refl gameOver_def Let_def nondecreasing_Math_max)

lemma update_hiScore: "nondecreasing (hiScore g) (hiScore (fst (update p src dt g st k)))"
proof (cases "phase g = Playing")
  case True
  have "nondecreasing (hiScore (beforeCollision p src dt g k))
          (hiScore (fst (collide (beforeCollision p src dt g k) st
                      (obs (beforeCollision p src dt g k)))))"
    by (rule collide_hiScore)
  then show ?thesis using True
    by (simp add: update_playing displayScore_frame beforeCollision_frame)
next
  case False
  then show ?thesis by (simp add: update_idle advanceAnimation_frame nondecreasing_refl)
qed

lemma loop_hiScore:
  "gRef wd = Some g \<Longrightarrow>
   \<exists>wd' g'. loop p src ts wd = Some wd' \<and> gRef wd' = Some g' \<and>
     nondecreasing (hiScore g) (hiScore g')"
  by (simp add: loop_Some update_hiScore)

lemma doAction_hiScore:
  "gRef wd = Some g \<Longrightarrow>
   \<exists>g'. gRef (doAction p src wd) = Some g' \<and> hiScore g' = hiScore g"
  by (cases "phase g") (simp_all add: doAction_def Let_def split_beta)

lemma resize_hiScore:
  "gRef wd = Some g \<Longrightarrow>
   \<exists>g'. gRef (resize src iw ih wd) = Some g' \<and> hiScore g' = hiScore g"
  by (simp add: resize_def Let_def split_beta)

lemma dispatch_hiScore:
  assumes "gRef wd = Some g"
  shows "\<exists>wd' g'. dispatch p src ev wd = Some wd' \<and> gRef wd' = Some g' \<and>
           nondecreasing (hiScore g) (hiScore g')"
proof (cases ev)
  case (Frame ts)
  then show ?thesis using loop_hiScore[OF assms] by (simp add: dispatch_def)
next
  case Action
  then show ?thesis
    using doAction_hiScore[OF assms, of p src] by (auto simp: dispatch_def nondecreasing_refl)
next
  case (Resize iw ih)
  then show ?thesis
    using resize_hiScore[OF assms, of src iw ih] by (auto simp: dispatch_def nondecreasing_refl)
qed

lemma run_hiScore:
  "gRef wd = Some g \<Longrightarrow>
   \<exists>wd' g'. run src evs wd = Some wd' \<and> gRef wd' = Some g' \<and>
     nondecreasing (hiScore g) (hiScore g')"
proof (induction evs arbitrary: wd g)
  case Nil
  then show ?case by (simp add: nondecreasing_refl)
next
  case (Cons pe evs)
  obtain p ev where pe: "pe = (p, ev)" by (cases pe)
  from dispatch_hiScore[OF Cons.prems, of p src ev] obtain wd1 g1 where
    1: "dispatch p src ev wd = Some wd1" "gRef wd1 = Some g1"
       "nondecreasing (hiScore g) (hiScore g1)"
    by blast
  from Cons.IH[OF 1(2)] obtain wd2 g2 where
    2: "run src evs wd1 = Some wd2" "gRef wd2 = Some g2"
       "nondecreasing (hiScore g1) (hiScore g2)"
    by blast
  show ?case using 1 2 nondecreasing_trans[OF 1(3) 2(3)] by (simp add: pe)
qed

text \<open>
  From any world that holds a game state, every sequence of calls of the handlers
  (frames, actions, resizes, each with the parameters of its moment) runs through, and an
  integer high score ends as an integer that is not smaller. The jump, the game-over
  commit and the retry are the cases of \<open>doAction\<close> and \<open>loop\<close>. A high score that
  is \<^verbatim>\<open>NaN\<close> stays so.
\<close>

lemma hiScore_integer_never_decreases:
  assumes "gRef wd = Some g"
  shows "\<exists>wd' g'. run src evs wd = Some wd' \<and> gRef wd' = Some g' \<and>
           (js_le (hiScore g) (hiScore g') \<or> hiScore g = NaN \<and> hiScore g' = NaN) \<and>
           (\<forall>h. hiScore g = Num h \<longrightarrow> (\<exists>h'. hiScore g' = Num h' \<and> h \<le> h'))"
proof -
  from run_hiScore[OF assms, of src evs] obtain wd' g' where
    r: "run src evs wd = Some wd'" "gRef wd' = Some g'"
       "nondecreasing (hiScore g) (hiScore g')"
    by blast
  show ?thesis using r by (simp add: nondecreasing_def)
qed

lemma hiScore_integer_never_decreases_example:
  "gRef (world0 game0) = Some game0 \<and> hiScore game0 = Num 3 \<and>
   (\<exists>wd' g'. run src0 [(PHYSICS_DEFAULTS, Action), (PHYSICS_DEFAULTS, Frame 16),
                         (PHYSICS_DEFAULTS, Resize 1024 768), (sliders_crossed, Frame 32)]
                (world0 game0) = Some wd' \<and>
      gRef wd' = Some g' \<and> (\<exists>h'. hiScore g' = Num h' \<and> 3 \<le> h'))"
proof -
  have h: "gRef (world0 game0) = Some game0" "hiScore game0 = Num 3"
    by (simp_all add: world0_def game0_def)
  show ?thesis
    using hiScore_integer_never_decreases[OF h(1), of src0
        "[(PHYSICS_DEFAULTS, Action), (PHYSICS_DEFAULTS, Frame 16),
          (PHYSICS_DEFAULTS, Resize 1024 768), (sliders_crossed, Frame 32)]"] h
    by blast
qed

subsection \<open>Speed\<close>

text \<open>
  With parameters that stay the same, an initial speed between 0 and the maximal speed,
  a growth rate that is not negative and time stamps that do not decrease, every state of
  a run is on the curve: \<open>makeState\<close> starts there and every handler stays there.
\<close>

lemma on_curve_makeState:
  "initSpeed p \<le> maxSpeed p \<Longrightarrow> on_curve p (fst (makeState p src wd))"
  by (simp add: on_curve_def makeState_fields)

lemma on_curve_update:
  assumes "on_curve p g" and "0 \<le> initSpeed p" and "0 \<le> maxSpeed p" and "0 \<le> speedRate p"
    and "0 \<le> dt"
  shows "on_curve p (fst (update p src dt g st k))"
proof (cases "phase g = Playing")
  case True
  have "0 \<le> speed g" using assms(1-4) by (simp add: on_curve_def)
  then have "0 \<le> speed g * dt * SCORE_RATE * (1 / 10)"
    using assms(5) by (simp add: SCORE_RATE_def)
  then have "0 \<le> score (fst (update p src dt g st k))"
    using assms(1) by (simp add: update_score[OF True] on_curve_def)
  then show ?thesis using update_speed[OF True, of p src dt st k] by (simp add: on_curve_def)
next
  case False
  then show ?thesis using assms(1)
    by (simp add: update_idle on_curve_def advanceAnimation_frame)
qed

lemma on_curve_dispatch:
  assumes "gRef wd = Some g" and "on_curve p g"
    and "0 \<le> initSpeed p" and "initSpeed p \<le> maxSpeed p" and "0 \<le> speedRate p"
    and "steady p (lastTs wd) ((p, ev) # evs)"
  shows "\<exists>wd' g'. dispatch p src ev wd = Some wd' \<and> gRef wd' = Some g' \<and> on_curve p g' \<and>
           steady p (lastTs wd') evs"
proof (cases ev)
  case (Frame ts)
  have "0 \<le> min (ts - lastTs wd) 50" using assms(6) Frame by simp
  then have "on_curve p (fst (update p src (min (ts - lastTs wd) 50) g (localStorage wd) (draws wd)))"
    using assms(2-5) by (intro on_curve_update) simp_all
  then show ?thesis using Frame assms(6) by (simp add: dispatch_def loop_Some[OF assms(1)])
next
  case Action
  have "\<exists>g'. gRef (doAction p src wd) = Some g' \<and> on_curve p g' \<and> lastTs (doAction p src wd) = lastTs wd"
    using assms(1,2,4)
    by (cases "phase g")
       (simp_all add: doAction_def Let_def split_beta on_curve_def makeState_fields)
  then show ?thesis using Action assms(6) by (auto simp: dispatch_def)
next
  case (Resize iw ih)
  have "\<exists>g'. gRef (resize src iw ih wd) = Some g' \<and> on_curve p g' \<and> lastTs (resize src iw ih wd) = lastTs wd"
    using assms(1,2) by (simp add: resize_def Let_def split_beta on_curve_def)
  then show ?thesis using Resize assms(6) by (auto simp: dispatch_def)
qed

lemma on_curve_run:
  assumes "0 \<le> initSpeed p" and "initSpeed p \<le> maxSpeed p" and "0 \<le> speedRate p"
  shows "gRef wd = Some g \<Longrightarrow> on_curve p g \<Longrightarrow> steady p (lastTs wd) evs \<Longrightarrow>
         \<exists>wd' g'. run src evs wd = Some wd' \<and> gRef wd' = Some g' \<and> on_curve p g'"
proof (induction evs arbitrary: wd g)
  case Nil
  then show ?case by simp
next
  case (Cons pe evs)
  obtain q ev where pe: "pe = (q, ev)" by (cases pe)
  have q: "q = p" using Cons.prems(3) pe by (cases ev) simp_all
  from on_curve_dispatch[OF Cons.prems(1,2) assms, of ev evs src] Cons.prems(3) pe q
  obtain wd1 g1 where
    1: "dispatch p src ev wd = Some wd1" "gRef wd1 = Some g1" "on_curve p g1"
       "steady p (lastTs wd1) evs"
    by blast
  from Cons.IH[OF 1(2,3,4)] show ?case using 1(1) by (simp add: pe q)
qed

text \<open>
  C4, as the code has it. A call of \<open>loop\<close> in the playing phase ends with
  \<open>speed = min maxSpeed (initSpeed + score * speedRate)\<close> for the parameters of that call,
  so with \<open>speed \<le> maxSpeed\<close>. The speed does not decrease over the call when the state
  before it is on the curve of the same parameters, its speed and the growth rate are not
  negative, and the time stamp is not before the previous one. Nothing is claimed for
  the speed before the first frame of a run or across a change of the parameters.
\<close>

theorem loop_speed:
  assumes "gRef wd = Some g" and "phase g = Playing"
  shows "\<exists>wd' g'. loop p src ts wd = Some wd' \<and> gRef wd' = Some g' \<and>
           speed g' = min (maxSpeed p) (initSpeed p + score g' * speedRate p) \<and>
           speed g' \<le> maxSpeed p \<and>
           (speed g = min (maxSpeed p) (initSpeed p + score g * speedRate p) \<and>
            0 \<le> speed g \<and> 0 \<le> speedRate p \<and> lastTs wd \<le> ts \<longrightarrow> speed g \<le> speed g')"
proof -
  let ?dt = "min (ts - lastTs wd) 50"
  let ?u = "update p src ?dt g (localStorage wd) (draws wd)"
  have s: "score (fst ?u) = score g + speed g * ?dt * SCORE_RATE * (1 / 10)"
    using assms(2) by (rule update_score)
  have v: "speed (fst ?u) = min (maxSpeed p) (initSpeed p + score (fst ?u) * speedRate p)"
    using assms(2) by (rule update_speed)
  have m: "speed g \<le> speed (fst ?u)"
    if h: "speed g = min (maxSpeed p) (initSpeed p + score g * speedRate p)"
          "0 \<le> speed g" "0 \<le> speedRate p" "lastTs wd \<le> ts"
  proof -
    have "0 \<le> ?dt" using h(4) by simp
    then have "0 \<le> speed g * ?dt * SCORE_RATE * (1 / 10)"
      using h(2) by (simp add: SCORE_RATE_def)
    then have "score g \<le> score (fst ?u)" by (simp add: s)
    then have "score g * speedRate p \<le> score (fst ?u) * speedRate p"
      using h(3) by (rule mult_right_mono)
    then show ?thesis using h(1) v by (simp add: min_def)
  qed
  have le: "speed (fst ?u) \<le> maxSpeed p"
    by (subst v) simp
  show ?thesis
  proof (intro exI conjI impI)
    show "loop p src ts wd = Some (wd\<lparr> lastTs := ts, gRef := Some (fst ?u),
            localStorage := fst (snd ?u), draws := snd (snd ?u) \<rparr>)"
      by (rule loop_Some[OF assms(1)])
    show "gRef (wd\<lparr> lastTs := ts, gRef := Some (fst ?u),
            localStorage := fst (snd ?u), draws := snd (snd ?u) \<rparr>) = Some (fst ?u)"
      by simp
    show "speed (fst ?u) = min (maxSpeed p) (initSpeed p + score (fst ?u) * speedRate p)"
      by (rule v)
    show "speed (fst ?u) \<le> maxSpeed p" by (rule le)
    show "speed g \<le> speed (fst ?u)"
      if "speed g = min (maxSpeed p) (initSpeed p + score g * speedRate p) \<and>
          0 \<le> speed g \<and> 0 \<le> speedRate p \<and> lastTs wd \<le> ts"
      using that m by blast
  qed
qed

theorem loop_speed_witness:
  "gRef (world0 game0) = Some game0 \<and> phase game0 = Playing \<and>
   speed game0 = min (maxSpeed PHYSICS_DEFAULTS) (initSpeed PHYSICS_DEFAULTS + score game0 * speedRate PHYSICS_DEFAULTS) \<and>
   0 \<le> speed game0 \<and> 0 \<le> speedRate PHYSICS_DEFAULTS \<and> lastTs (world0 game0) \<le> 16 \<and>
   (\<exists>wd' g'. loop PHYSICS_DEFAULTS src0 16 (world0 game0) = Some wd' \<and> gRef wd' = Some g' \<and>
      speed g' \<le> 22 \<and> 5 \<le> speed g')"
proof -
  have h: "gRef (world0 game0) = Some game0" "phase game0 = Playing"
    by (simp_all add: world0_def game0_def)
  have i: "speed game0 = min (maxSpeed PHYSICS_DEFAULTS)
             (initSpeed PHYSICS_DEFAULTS + score game0 * speedRate PHYSICS_DEFAULTS)"
          "0 \<le> speed game0" "0 \<le> speedRate PHYSICS_DEFAULTS" "lastTs (world0 game0) \<le> 16"
    by (simp_all add: game0_def world0_def PHYSICS_DEFAULTS_def MAX_SPEED_def INIT_SPEED_def SPEED_RATE_def)
  have v: "maxSpeed PHYSICS_DEFAULTS = 22" "speed game0 = 5"
    by (simp_all add: PHYSICS_DEFAULTS_def MAX_SPEED_def game0_def)
  from loop_speed[OF h, of PHYSICS_DEFAULTS src0 16] i obtain wd' g' where
    "loop PHYSICS_DEFAULTS src0 16 (world0 game0) = Some wd'" "gRef wd' = Some g'"
    "speed g' \<le> maxSpeed PHYSICS_DEFAULTS" "speed game0 \<le> speed g'"
    by blast
  then show ?thesis using h i v by auto
qed

text \<open>
  The claim C4 as it is written fails on inputs the panel offers. After the sliders have
  been moved to an initial speed of 20 and a maximal speed of 5, a retry from the
  game-over phase gives a playing state of speed 20, above the maximal speed, and the
  first frame brings the speed down to 5. And in a run under the default parameters that
  has reached the score 1000 and the speed 19, a frame that comes after the maximal speed
  has been lowered to 5 brings the speed down to 5.
\<close>

theorem speed_counterexample:
  "phase (game0\<lparr> phase := GameOver \<rparr>) = GameOver \<and>
   map_option phase (gRef (doAction sliders_crossed src0
      (world0 (game0\<lparr> phase := GameOver \<rparr>)))) = Some Playing \<and>
   map_option speed (gRef (doAction sliders_crossed src0
      (world0 (game0\<lparr> phase := GameOver \<rparr>)))) = Some 20 \<and>
   maxSpeed sliders_crossed = 5 \<and>
   map_option speed (Option.bind (loop sliders_crossed src0 16
      (doAction sliders_crossed src0 (world0 (game0\<lparr> phase := GameOver \<rparr>)))) gRef) = Some 5 \<and>
   phase (game0\<lparr> score := 1000, speed := 19 \<rparr>) = Playing \<and>
   on_curve PHYSICS_DEFAULTS (game0\<lparr> score := 1000, speed := 19 \<rparr>) \<and>
   map_option speed (Option.bind
     (loop max_lowered src0 16 (world0 (game0\<lparr> score := 1000, speed := 19 \<rparr>))) gRef) = Some 5"
proof -
  let ?p = "sliders_crossed"
  let ?w = "world0 (game0\<lparr> phase := GameOver \<rparr>)"
  let ?g1 = "(fst (makeState ?p src0 ?w))\<lparr> hiScore := hiScore game0, phase := Playing \<rparr>"
  have a: "doAction ?p src0 ?w = ?w\<lparr> gRef := Some ?g1, draws := snd (makeState ?p src0 ?w) \<rparr>"
    by (simp add: doAction_def world0_fields Let_def split_beta)
  have r: "gRef (doAction ?p src0 ?w) = Some ?g1" by (simp add: a)
  have p1: "phase ?g1 = Playing" by simp
  have l: "lastTs (doAction ?p src0 ?w) = 0"
    by (simp add: a world0_fields)
  have s: "speed (fst (update ?p src0 16 ?g1 st k)) = 5" for st k
    by (simp add: update_speed[OF p1] update_score[OF p1] makeState_fields)
       (simp add: sliders_crossed_def PHYSICS_DEFAULTS_def SPEED_RATE_def SCORE_RATE_def)
  have q: "initSpeed ?p = 20" "maxSpeed ?p = 5"
    by (simp_all add: sliders_crossed_def)
  have first: "map_option phase (gRef (doAction ?p src0 ?w)) = Some Playing \<and>
     map_option speed (gRef (doAction ?p src0 ?w)) = Some 20 \<and>
     maxSpeed ?p = 5 \<and>
     map_option speed (Option.bind (loop ?p src0 16 (doAction ?p src0 ?w)) gRef) = Some 5"
    by (simp add: loop_Some[OF r] l s) (simp add: a makeState_fields q)
  let ?h = "game0\<lparr> score := 1000, speed := 19 \<rparr>"
  have p2: "phase ?h = Playing" by (simp add: game0_def)
  have c: "on_curve PHYSICS_DEFAULTS ?h"
    by (simp add: on_curve_def PHYSICS_DEFAULTS_def MAX_SPEED_def INIT_SPEED_def SPEED_RATE_def)
  have s2: "speed (fst (update max_lowered src0 16 ?h st k)) = 5" for st k
    by (simp add: update_speed[OF p2] update_score[OF p2])
       (simp add: max_lowered_def PHYSICS_DEFAULTS_def INIT_SPEED_def SPEED_RATE_def SCORE_RATE_def)
  have second: "map_option speed (Option.bind (loop max_lowered src0 16 (world0 ?h)) gRef) = Some 5"
    by (simp add: loop_Some[OF world0_fields(1)] world0_fields s2)
  have "phase (game0\<lparr> phase := GameOver \<rparr>) = GameOver" by simp
  then show ?thesis using first p2 c second by blast
qed

subsection \<open>The spawn interval\<close>

lemma scroll_length: "length (obs (scroll g)) \<le> length (obs g)"
  by (simp add: scroll_def Let_def)

lemma spawn_length: "length (obs (fst (spawn p src dt g k))) \<le> length (obs g) + 1"
  by (simp add: spawn_def Let_def)

lemma spawn_nextGap:
  assumes "nextGap g = Num n"
  shows "nextGap (fst (spawn p src dt g k)) =
           (if n - dt \<le> 0
            then js_mul (js_div (Num (minGap p + Math_random src (k + 1) * (maxGap p - minGap p)))
                                (Num (speed g))) (Num (1000 / 60))
            else Num (n - dt))"
  using assms by (simp add: spawn_def Let_def js_sub_def)

lemma update_obs_nextGap:
  assumes "phase g = Playing"
  shows "obs (fst (update p src dt g st k)) = obs (beforeCollision p src dt g k)"
    "nextGap (fst (update p src dt g st k)) =
       nextGap (fst (spawn p src dt (integrate p (advanceRun p dt (advanceAnimation p dt g))) k))"
  using assms
  by (simp_all add: update_playing displayScore_frame collide_frame beforeCollision_def scroll_frame)


lemma offered_gaps_crossed: "offered gaps_crossed" "minGap gaps_crossed > maxGap gaps_crossed"
  by (simp_all add: gaps_crossed_def offered_def PHYSICS_DEFAULTS_def GRAVITY_def JUMP_FORCE_def
      INIT_SPEED_def MAX_SPEED_def SPEED_RATE_def)

lemma Math_random_range: "0 \<le> Math_random src k" "Math_random src k < 1"
  using frac_lt_1[of "src k"] by (simp_all add: Math_random_def)

lemma px_positive:
  assumes "offered p"
  shows "100 \<le> minGap p + Math_random src k * (maxGap p - minGap p)"
proof -
  let ?r = "Math_random src k"
  have r: "0 \<le> ?r" "0 \<le> 1 - ?r" using Math_random_range[of src k] by simp_all
  have a: "(1 - ?r) * 100 \<le> (1 - ?r) * minGap p"
    using r(2) assms by (intro mult_left_mono) (simp_all add: offered_def)
  have b: "?r * 100 \<le> ?r * maxGap p"
    using r(1) assms by (intro mult_left_mono) (simp_all add: offered_def)
  have "minGap p + ?r * (maxGap p - minGap p) = (1 - ?r) * minGap p + ?r * maxGap p"
    by (simp add: algebra_simps)
  moreover have "(1 - ?r) * 100 + ?r * 100 = 100" by (simp add: algebra_simps)
  ultimately show ?thesis using a b by linarith
qed

lemma speed_after:
  assumes "offered p" and "0 \<le> sc"
  shows "1 \<le> min (maxSpeed p) (initSpeed p + sc * speedRate p)"
proof -
  have "0 \<le> sc * speedRate p" using assms by (simp add: offered_def)
  then show ?thesis using assms(1) by (simp add: offered_def)
qed

lemma update_sound:
  assumes "sound g" and "offered p" and "0 \<le> dt"
  shows "sound (fst (update p src dt g st k))"
proof (cases "phase g = Playing")
  case True
  let ?u = "fst (update p src dt g st k)"
  let ?g2 = "integrate p (advanceRun p dt (advanceAnimation p dt g))"
  have "0 \<le> speed g * dt * SCORE_RATE * (1 / 10)"
    using assms by (simp add: sound_def SCORE_RATE_def)
  then have sc: "0 \<le> score ?u" using assms(1) by (simp add: update_score[OF True] sound_def)
  have sp: "1 \<le> speed ?u"
    using speed_after[OF assms(2) sc] by (simp add: update_speed[OF True, symmetric])
  obtain n where n: "nextGap g = Num n" using assms(1) by (auto simp: sound_def)
  have n2: "nextGap ?g2 = Num n"
    using n by (simp add: integrate_frame advanceRun_frame advanceAnimation_frame)
  have s2: "speed ?g2 = speed ?u"
    using True
    by (simp add: update_playing displayScore_frame collide_frame beforeCollision_frame
        integrate_frame)
  have "\<exists>v. nextGap ?u = Num v"
    using True sp by (simp add: update_obs_nextGap spawn_nextGap[OF n2] s2 div_fin_def)
  then show ?thesis using sc sp by (simp add: sound_def)
next
  case False
  then show ?thesis using assms(1)
    by (simp add: update_idle sound_def advanceAnimation_frame)
qed





lemma spawn_step:
  assumes "phase g = Playing" and "sound g" and "offered p" and "0 \<le> dt"
  shows "length (obs (fst (update p src dt g st k))) \<le> length (obs g) + 1"
    and "js_le (js_sub (nextGap g) (Num dt)) (Num 0) \<Longrightarrow>
         nextGap (fst (update p src dt g st k)) =
           Num ((minGap p + Math_random src (k + 1) * (maxGap p - minGap p))
                / speed (fst (update p src dt g st k)) * (1000 / 60)) \<and>
         0 < (minGap p + Math_random src (k + 1) * (maxGap p - minGap p))
                / speed (fst (update p src dt g st k)) * (1000 / 60)"
proof -
  let ?u = "fst (update p src dt g st k)"
  let ?g2 = "integrate p (advanceRun p dt (advanceAnimation p dt g))"
  have o2: "obs ?g2 = obs g"
    by (simp add: integrate_frame advanceRun_frame advanceAnimation_frame)
  have "length (obs ?u) \<le> length (obs (fst (spawn p src dt ?g2 k)))"
    using assms(1) scroll_length by (simp add: update_obs_nextGap beforeCollision_def)
  also have "\<dots> \<le> length (obs g) + 1"
    using spawn_length[of p src dt ?g2 k] by (simp add: o2)
  finally show "length (obs ?u) \<le> length (obs g) + 1" .
  have sp: "1 \<le> speed ?u"
    using update_sound[OF assms(2,3,4), of src st k] by (simp add: sound_def)
  obtain n where n: "nextGap g = Num n" using assms(2) by (auto simp: sound_def)
  have n2: "nextGap ?g2 = Num n"
    using n by (simp add: integrate_frame advanceRun_frame advanceAnimation_frame)
  have s2: "speed ?g2 = speed ?u"
    using assms(1)
    by (simp add: update_playing displayScore_frame collide_frame beforeCollision_frame
        integrate_frame)
  have px: "0 < minGap p + Math_random src (k + 1) * (maxGap p - minGap p)"
    using px_positive[OF assms(3), of src "k + 1"] by simp
  show "nextGap ?u =
           Num ((minGap p + Math_random src (k + 1) * (maxGap p - minGap p)) / speed ?u * (1000 / 60)) \<and>
         0 < (minGap p + Math_random src (k + 1) * (maxGap p - minGap p)) / speed ?u * (1000 / 60)"
    if "js_le (js_sub (nextGap g) (Num dt)) (Num 0)"
  proof -
    have "n - dt \<le> 0" using that n by (simp add: js_sub_def)
    then have "nextGap ?u =
        Num ((minGap p + Math_random src (k + 1) * (maxGap p - minGap p)) / speed ?u * (1000 / 60))"
      using assms(1) sp by (simp add: update_obs_nextGap spawn_nextGap[OF n2] s2 div_fin_def)
    moreover have "0 < (minGap p + Math_random src (k + 1) * (maxGap p - minGap p)) / speed ?u"
      using px sp by (intro divide_pos_pos) simp_all
    then have "0 < (minGap p + Math_random src (k + 1) * (maxGap p - minGap p)) / speed ?u
                 * (1000 / 60)"
      by (intro mult_pos_pos) simp_all
    ultimately show ?thesis by blast
  qed
qed



text \<open>A frame that spawns under crossed gaps, from a countdown of 10 milliseconds.\<close>

lemma spawn_step_example:
  "sound (game0\<lparr> nextGap := Num 10 \<rparr>) \<and>
   nextGap (fst (update gaps_crossed src0 16 (game0\<lparr> nextGap := Num 10 \<rparr>) st 0)) =
     Num (600 / speed (fst (update gaps_crossed src0 16 (game0\<lparr> nextGap := Num 10 \<rparr>) st 0))
          * (1000 / 60))"
proof -
  let ?g = "game0\<lparr> nextGap := Num 10 \<rparr>"
  have p1: "phase ?g = Playing" by (simp add: game0_def)
  have s: "sound ?g" by (simp add: sound_def game0_def)
  have j: "js_le (js_sub (nextGap ?g) (Num 16)) (Num 0)" by (simp add: js_sub_def)
  have px: "minGap gaps_crossed + Math_random src0 j * (maxGap gaps_crossed - minGap gaps_crossed) = 600"
    for j
    by (simp add: gaps_crossed_def Math_random_def src0_def frac_def)
  show ?thesis
    using spawn_step(2)[OF p1 s offered_gaps_crossed(1) _ j, of src0 st 0] s by (simp add: px)
qed

text \<open>
  The spawn block has no guard of its own. With a maximal speed of zero, which the panel
  does not offer, the speed is 0 and a frame that spawns leaves \<^verbatim>\<open>Infinity\<close> as the
  countdown.
\<close>

lemma spawn_interval_unguarded:
  "map_option nextGap (Option.bind
     (loop speed_zero src0 16 (world0 (game0\<lparr> speed := 0, nextGap := Num 10 \<rparr>))) gRef) = Some PosInf"
proof -
  let ?g = "game0\<lparr> speed := 0, nextGap := Num 10 \<rparr>"
  let ?g2 = "integrate speed_zero (advanceRun speed_zero 16 (advanceAnimation speed_zero 16 ?g))"
  have p1: "phase ?g = Playing" by (simp add: game0_def)
  have n2: "nextGap ?g2 = Num 10"
    by (simp add: integrate_frame advanceRun_frame advanceAnimation_frame)
  have s2: "speed ?g2 = 0"
    by (simp add: integrate_frame advanceRun_def Let_def advanceAnimation_frame)
       (simp add: speed_zero_def PHYSICS_DEFAULTS_def game0_def SPEED_RATE_def INIT_SPEED_def)
  have px: "minGap speed_zero + Math_random src0 j * (maxGap speed_zero - minGap speed_zero) = 685"
    for j
    by (simp add: speed_zero_def PHYSICS_DEFAULTS_def MIN_GAP_PX_def MAX_GAP_PX_def
        Math_random_def src0_def frac_def)
  have "nextGap (fst (update speed_zero src0 16 ?g st 0)) = PosInf" for st
    by (simp add: update_obs_nextGap[OF p1] spawn_nextGap[OF n2] s2 px div_fin_def mul_inf_def)
  then show ?thesis
    by (simp add: loop_Some[OF world0_fields(1)] world0_fields)
qed

subsection \<open>The stored high score\<close>

text \<open>The text stored for an integer reads back as that integer.\<close>

lemma digit_cases:
  assumes "d < (10::nat)"
  shows "d = 0 \<or> d = 1 \<or> d = 2 \<or> d = 3 \<or> d = 4 \<or> d = 5 \<or> d = 6 \<or> d = 7 \<or> d = 8 \<or> d = 9"
  using assms by arith

lemma digit_char:
  assumes "d < (10::nat)"
  shows "isDigit (''0123456789'' ! d)" "digitValue (''0123456789'' ! d) = int d"
    "\<not> isWhiteSpace (''0123456789'' ! d)" "''0123456789'' ! d \<noteq> CHR ''-''"
    "''0123456789'' ! d \<noteq> CHR ''+''"
  using digit_cases[OF assms]
  by (auto simp: isDigit_def digitValue_def isWhiteSpace_def)

lemma decimal_not_Nil: "decimal n \<noteq> []"
  by (subst decimal.simps) simp

lemma decimal_isDigit: "\<forall>c \<in> set (decimal n). isDigit c"
proof (induction n rule: decimal.induct)
  case (1 n)
  show ?case
  proof (cases "n < 10")
    case True
    then show ?thesis by (subst decimal.simps) (simp add: digit_char)
  next
    case False
    then show ?thesis using 1 by (subst decimal.simps) (simp add: digit_char)
  qed
qed

lemma decimal_value: "foldl (\<lambda>a c. 10 * a + digitValue c) 0 (decimal n) = int n"
proof (induction n rule: decimal.induct)
  case (1 n)
  show ?case
  proof (cases "n < 10")
    case True
    then show ?thesis by (subst decimal.simps) (simp add: digit_char)
  next
    case False
    then have "foldl (\<lambda>a c. 10 * a + digitValue c) 0 (decimal (n div 10)) = int (n div 10)"
      using 1 by simp
    moreover have "10 * int (n div 10) + int (n mod 10) = int n"
      by presburger
    ultimately show ?thesis using False
      by (subst decimal.simps) (simp add: digit_char)
  qed
qed

lemma decimal_hd: "isDigit (hd (decimal n))"
  using decimal_isDigit[of n] decimal_not_Nil[of n] by (cases "decimal n") simp_all

lemma isDigit_not_others:
  "isDigit c \<Longrightarrow> \<not> isWhiteSpace c \<and> c \<noteq> CHR ''-'' \<and> c \<noteq> CHR ''+''"
  by (auto simp: isDigit_def isWhiteSpace_def)

lemma parseInt_decimal: "parseInt (decimal n) = Num (int n)"
proof -
  obtain c cs where d: "decimal n = c # cs" using decimal_not_Nil[of n] by (cases "decimal n") auto
  have c: "isDigit c" using decimal_hd[of n] d by simp
  have t: "takeWhile isDigit (decimal n) = decimal n"
    using decimal_isDigit[of n] by (simp add: takeWhile_eq_all_conv)
  have "dropWhile isWhiteSpace (decimal n) = decimal n"
    using isDigit_not_others[OF c] d by simp
  then show ?thesis
    using isDigit_not_others[OF c] d t decimal_value[of n] decimal_not_Nil[of n]
    by (simp add: parseInt_def Let_def)
qed

lemma parseInt_minus_decimal: "parseInt (CHR ''-'' # decimal n) = Num (- int n)"
proof -
  have t: "takeWhile isDigit (decimal n) = decimal n"
    using decimal_isDigit[of n] by (simp add: takeWhile_eq_all_conv)
  have w: "\<not> isWhiteSpace CHR ''-''" by (simp add: isWhiteSpace_def)
  show ?thesis
    using w decimal_value[of n] decimal_not_Nil[of n]
    by (simp add: parseInt_def Let_def t)
qed

lemma parseInt_String: "parseInt (String (Num n)) = Num n"
  by (simp add: parseInt_decimal parseInt_minus_decimal)

lemma String_not_Nil: "String (Num n) \<noteq> []"
  by (simp add: decimal_not_Nil)

text \<open>
  What a game over stores is what the next \<open>makeState\<close> reads, when the high score is a
  number.
\<close>

lemma stored_reads_back: "parseInt (storedHi (st(''da_hi'' \<mapsto> String (Num n)))) = Num n"
proof -
  have "storedHi (st(''da_hi'' \<mapsto> String (Num n))) = String (Num n)"
    using String_not_Nil[of n] by (simp add: storedHi_def del: String.simps)
  then show ?thesis by (simp only: parseInt_String)
qed

lemma parseInt_abc: "parseInt ''abc'' = NaN"
  by (simp add: parseInt_def isWhiteSpace_def isDigit_def)

lemma parseInt_0: "parseInt ''0'' = Num 0"
  by (simp add: parseInt_def isWhiteSpace_def isDigit_def digitValue_def)

lemma parseInt_example: "parseInt '' -1234px'' = Num (- 1234)"
  by (simp add: parseInt_def isWhiteSpace_def isDigit_def digitValue_def)

lemma makeState_hiScore_missing:
  "localStorage wd ''da_hi'' = None \<or> localStorage wd ''da_hi'' = Some [] \<Longrightarrow>
   hiScore (fst (makeState p src wd)) = Num 0"
  by (auto simp: makeState_fields storedHi_def parseInt_0)

text \<open>
  C8. A missing value, or the empty string, gives the high score 0
  (\<open>makeState_hiScore_missing\<close>). A stored text that does not start with a number does
  not: \<^verbatim>\<open>parseInt\<close> returns \<^verbatim>\<open>NaN\<close> for it, and that is the high score of the fresh
  state. Here the stored text is \<^verbatim>\<open>abc\<close>.
\<close>

theorem makeState_hiScore_unparseable:
  "hiScore (fst (makeState PHYSICS_DEFAULTS src0 (world_stored ''abc''))) = NaN"
  by (simp add: makeState_fields storedHi_def parseInt_abc world_stored_def)

text \<open>The same through \<open>mount\<close>, as the component starts.\<close>

lemma hiScore_NaN_sticks:
  "map_option hiScore (gRef (mount PHYSICS_DEFAULTS src0 800 600 (world_stored ''abc''))) = Some NaN"
  by (simp add: mount_gRef makeState_fields storedHi_def parseInt_abc world_stored_def resize_def
      Let_def world_init_def)

lemma hiScore_NaN_run:
  assumes "gRef wd = Some g" and "hiScore g = NaN"
  shows "\<exists>wd' g'. run src evs wd = Some wd' \<and> gRef wd' = Some g' \<and> hiScore g' = NaN"
  using run_hiScore[OF assms(1), of src evs] assms(2) by (auto simp: nondecreasing_def)

text \<open>
  C3. For an integer high score the claim holds, over every sequence of calls
  (\<open>hiScore_integer_never_decreases\<close>). It fails on the high score that \<open>makeState\<close>
  produces from a stored text it cannot parse. With \<^verbatim>\<open>abc\<close> stored when the component
  is mounted, the high score is \<^verbatim>\<open>NaN\<close> then and after an action, a frame, a second
  action and a second frame; and \<^verbatim>\<open>NaN\<close> is not at least \<^verbatim>\<open>NaN\<close>, so none of these
  calls leaves the high score at least what it was.
\<close>

theorem hiScore_NaN_not_at_least_itself:
  "map_option hiScore (gRef (mount PHYSICS_DEFAULTS src0 800 600 (world_stored ''abc''))) = Some NaN \<and>
   map_option hiScore (Option.bind
     (run src0 [(PHYSICS_DEFAULTS, Action), (PHYSICS_DEFAULTS, Frame 16), (PHYSICS_DEFAULTS, Action),
                (PHYSICS_DEFAULTS, Frame 32)]
        (mount PHYSICS_DEFAULTS src0 800 600 (world_stored ''abc''))) gRef) = Some NaN \<and>
   \<not> js_le (NaN :: int jsval) NaN"
proof -
  let ?m = "mount PHYSICS_DEFAULTS src0 800 600 (world_stored ''abc'')"
  have a: "map_option hiScore (gRef ?m) = Some NaN" by (rule hiScore_NaN_sticks)
  then obtain g where g: "gRef ?m = Some g" "hiScore g = NaN" by auto
  from hiScore_NaN_run[OF g] obtain wd' g' where
    "run src0 [(PHYSICS_DEFAULTS, Action), (PHYSICS_DEFAULTS, Frame 16), (PHYSICS_DEFAULTS, Action),
                (PHYSICS_DEFAULTS, Frame 32)] ?m = Some wd'" "gRef wd' = Some g'" "hiScore g' = NaN"
    by blast
  then show ?thesis using a by simp
qed

end
